theory Spec2Isabelle
  imports Complex_Main
begin

section \<open>Data model of \<open>deepspeed/ops/fp_quantizer/quantize.py\<close>\<close>

text \<open>
  The element types a tensor can carry. Only \<open>BFloat16\<close> is accepted by \<open>quantize\<close>;
  the others occur as \<open>q_dtype\<close>, \<open>q_range_dtype\<close>, or as inputs that are refused.
\<close>

datatype dtype =
    BFloat16 | Float16 | Float32 | UInt8 | Int8
  | Float8_e4m3fn | Float8_e4m3fnuz | Float8_e5m2

text \<open>
  Every way a call can raise. The first seven are the \<open>assert\<close> statements of the file
  (all of them raise Python's AssertionError); they are named after the message of the
  assertion:
  \<^item> \<open>InvalidInputDtype\<close>: "only support bf16 for now" (line 68);
  \<^item> \<open>MetaTensorPrecision\<close>: "meta tensor is only supported with q\_bit=8" (line 70);
  \<^item> \<open>UnsupportedPrecision\<close>: "Missing ...-quantization, please add the template
    arguments" (lines 84, 136, 173);
  \<^item> \<open>SequenceError\<close>: "you need to call quantize before dequantizing!" (lines 123, 159);
  \<^item> \<open>ShapeMismatch\<close>: "Selective-Dequantization works on 3d tensor only" (line 157) and
    "quantized data should have the same size as original tensor" (lines 140, 177);
  \<^item> \<open>NotImplemented\<close>: the three assertions of the fallback routines (lines 186, 195, 196);
  \<^item> \<open>Gaudi2Dtype\<close>: "Gaudi2 has a unique dtype" (line 200).
  The others are the exceptions raised by Python and by torch themselves;
  \<open>KernelError\<close> stands for whatever a kernel raises.
\<close>

datatype error =
    InvalidInputDtype
  | MetaTensorPrecision
  | UnsupportedPrecision
  | SequenceError
  | ShapeMismatch
  | NotImplemented
  | Gaudi2Dtype
  | ZeroDivisionError
  | ValueError
  | AttributeError
  | TypeError
  | ImportError
  | TorchRuntimeError
  | KernelError

text \<open>
  A dense tensor: element type, shape, and the elements in row-major order. The element
  values are of an abstract type \<open>'v\<close>: the file never inspects a value itself, it hands
  values to torch and to the kernels.
\<close>

record 'v tensor =
  dtype :: dtype
  shape :: "nat list"
  elems :: "'v list"

definition numel :: "'v tensor \<Rightarrow> int" where
  "numel t = int (prod_list (shape t))"

text \<open>The state of an attribute that \<open>del\<close> can remove from the object.\<close>

datatype 'a attr = Missing | Value 'a

subsection \<open>The torch operations the file calls\<close>

text \<open>
  A new tensor of the given dimensions, every element \<open>v\<close>, as \<open>torch.ones(*dims)\<close>
  builds it: the dimensions are Python integers, and a negative one raises.
\<close>

definition torch_full :: "'v \<Rightarrow> int list \<Rightarrow> dtype \<Rightarrow> error + 'v tensor" where
  "torch_full v dims dt =
     (if list_ex (\<lambda>d. d < 0) dims then Inl TorchRuntimeError
      else Inr \<lparr>dtype = dt, shape = map nat dims,
                elems = replicate (prod_list (map nat dims)) v\<rparr>)"

text \<open>
  \<open>t.view(*dims)\<close> and \<open>t.reshape(*dims)\<close> on a dense tensor: at most one dimension may be
  \<open>-1\<close> and is then inferred; the number of elements must be kept.
\<close>

definition t_reshape :: "int list \<Rightarrow> 'v tensor \<Rightarrow> error + 'v tensor" where
  "t_reshape dims t =
     (let known = prod_list (filter (\<lambda>d. d \<noteq> -1) dims) in
      if list_ex (\<lambda>d. d < -1) dims then Inl TorchRuntimeError
      else if length (filter (\<lambda>d. d = -1) dims) > 1 then Inl TorchRuntimeError
      else if length (filter (\<lambda>d. d = -1) dims) = 1 then
        (if known = 0 \<or> numel t mod known \<noteq> 0 then Inl TorchRuntimeError
         else Inr (t\<lparr>shape := map (\<lambda>d. nat (if d = -1 then numel t div known else d)) dims\<rparr>))
      else if known \<noteq> numel t then Inl TorchRuntimeError
      else Inr (t\<lparr>shape := map nat dims\<rparr>))"

text \<open>The \<open>i\<close>-th run of \<open>w\<close> consecutive elements.\<close>

definition slice :: "nat \<Rightarrow> nat \<Rightarrow> 'v list \<Rightarrow> 'v list" where
  "slice w i xs = take w (drop (i * w) xs)"

text \<open>
  \<open>t.split(split_size, dim=-1)\<close> on a two-dimensional tensor \<open>[r, d]\<close>, which the buffer
  always is: chunks of \<open>split_size\<close> columns, the last one smaller when \<open>split_size\<close> does
  not divide \<open>d\<close>; a single empty chunk when \<open>d = 0\<close>; \<open>split_size = 0\<close> is refused unless
  \<open>d = 0\<close>.
\<close>

definition columns :: "nat \<Rightarrow> nat \<Rightarrow> 'v tensor \<Rightarrow> 'v tensor" where
  "columns lo w t =
     (case shape t of
        [r, d] \<Rightarrow> t\<lparr>shape := [r, w],
                     elems := concat (map (\<lambda>i. take w (drop lo (slice d i (elems t)))) [0..<r])\<rparr>
      | _ \<Rightarrow> t)"

definition t_split :: "int \<Rightarrow> 'v tensor \<Rightarrow> error + 'v tensor list" where
  "t_split split_size t =
     (case shape t of
        [r, d] \<Rightarrow>
          if split_size < 0 then Inl TorchRuntimeError
          else if d = 0 then Inr [t]
          else if split_size = 0 then Inl TorchRuntimeError
          else Inr (map (\<lambda>k. columns (k * nat split_size) (min (nat split_size) (d - k * nat split_size)) t)
                        [0..<(d + nat split_size - 1) div nat split_size])
      | _ \<Rightarrow> Inl TorchRuntimeError)"

text \<open>
  Broadcasting, as \<open>dst.copy_(src)\<close> does it: \<open>broadcastable\<close> reads both shapes from the
  last dimension; \<open>expand\<close> repeats the elements of the source along the dimensions it
  lacks or has with size 1.
\<close>

fun broadcastable :: "nat list \<Rightarrow> nat list \<Rightarrow> bool" where
  "broadcastable [] ds = True"
| "broadcastable (s # ss) [] = False"
| "broadcastable (s # ss) (d # ds) = ((s = d \<or> s = 1) \<and> broadcastable ss ds)"

fun expand :: "nat list \<Rightarrow> nat list \<Rightarrow> 'v list \<Rightarrow> 'v list" where
  "expand [] ss xs = xs"
| "expand (d # ds) [] xs = concat (replicate d (expand ds [] xs))"
| "expand (d # ds) (s # ss) xs =
     (if length ss < length ds then concat (replicate d (expand ds (s # ss) xs))
      else if s = d then concat (map (\<lambda>i. expand ds ss (slice (prod_list ss) i xs)) [0..<d])
      else concat (replicate d (expand ds ss xs)))"

subsection \<open>The collaborators outside the file\<close>

text \<open>
  What the file takes from torch and from the Habana runtime, as parameters of the model:
  \<^item> \<open>one\<close>: the value 1 (the fill of \<open>torch.ones\<close>, the numerator of \<open>1.0 / self.scale\<close>);
  \<^item> \<open>uninit\<close>: what \<open>torch.empty\<close> leaves in a new tensor;
  \<^item> \<open>to_dtype a b\<close>: the conversion of a value from element type \<open>a\<close> to \<open>b\<close>
    (\<open>.float()\<close> is \<open>to_dtype a Float32\<close>; \<open>copy_\<close> converts to the destination's type);
  \<^item> \<open>promote_types\<close>: \<open>torch.promote_types\<close>, the element type of a concatenation;
  \<^item> \<open>f_abs\<close>, \<open>f_div\<close>: absolute value and division on 32-bit floats;
  \<^item> \<open>row_max\<close>: the maximum of one row, as \<open>max(dim=1)\<close> computes it;
  \<^item> \<open>finfo_max\<close>: \<open>torch.finfo(dt).max\<close>, which raises TypeError (here \<open>None\<close>) on a type
    that is not a floating-point type;
  \<^item> \<open>hpu_device\<close>: \<open>htexp._get_device_type()\<close>, and \<open>None\<close> when \<open>habana_frameworks\<close>
    cannot be imported;
  \<^item> \<open>cast_to_fp8_v2\<close>, \<open>cast_from_fp8\<close>: the two operators of \<open>torch.ops.hpu\<close>.
\<close>

datatype device_type = Gaudi | Gaudi2 | Gaudi3

record 'v runtime =
  one :: 'v
  uninit :: 'v
  to_dtype :: "dtype \<Rightarrow> dtype \<Rightarrow> 'v \<Rightarrow> 'v"
  promote_types :: "dtype \<Rightarrow> dtype \<Rightarrow> dtype"
  f_abs :: "'v \<Rightarrow> 'v"
  f_div :: "'v \<Rightarrow> 'v \<Rightarrow> 'v"
  row_max :: "'v list \<Rightarrow> 'v"
  finfo_max :: "dtype \<Rightarrow> 'v option"
  hpu_device :: "device_type option"
  cast_to_fp8_v2 :: "'v tensor \<Rightarrow> 'v tensor \<Rightarrow> bool \<Rightarrow> dtype \<Rightarrow> error + 'v tensor"
  cast_from_fp8 :: "'v tensor \<Rightarrow> 'v tensor \<Rightarrow> dtype \<Rightarrow> error + 'v tensor"

text \<open>
  Modelled from the spec: the accelerated kernel module that \<open>FPQuantizerBuilder().load()\<close>
  returns is not part of the Python file. Its three entry points
  \<open>quantize(out, in, group_byte_width, stochastic, q_bits, mantissa_bits)\<close>,
  \<open>dequantize(out, in, group_size, mantissa_bits, exponent_bits)\<close> and
  \<open>selective_dequantize(out, in, indexes, group_size, mantissa_bits, exponent_bits)\<close>
  write into the tensor \<open>out\<close> they are given (for \<open>quantize\<close>: codes and scale together
  into the buffer) and \<open>quantize\<close> returns that buffer. A kernel is therefore a function
  from its arguments to the new contents of \<open>out\<close>, or to an error.
\<close>

record 'v fp_quant_module =
  k_quantize :: "'v tensor \<Rightarrow> 'v tensor \<Rightarrow> int \<Rightarrow> bool \<Rightarrow> int \<Rightarrow> int \<Rightarrow> error + 'v list"
  k_dequantize :: "'v tensor \<Rightarrow> 'v tensor \<Rightarrow> int \<Rightarrow> int \<Rightarrow> int \<Rightarrow> error + 'v list"
  k_selective_dequantize ::
    "'v tensor \<Rightarrow> 'v tensor \<Rightarrow> int list \<Rightarrow> int \<Rightarrow> int \<Rightarrow> int \<Rightarrow> error + 'v list"

definition torch_ones :: "'v runtime \<Rightarrow> int list \<Rightarrow> dtype \<Rightarrow> error + 'v tensor" where
  "torch_ones rt dims dt = torch_full (one rt) dims dt"

definition torch_empty :: "'v runtime \<Rightarrow> nat list \<Rightarrow> dtype \<Rightarrow> 'v tensor" where
  "torch_empty rt shp dt =
     \<lparr>dtype = dt, shape = shp, elems = replicate (prod_list shp) (uninit rt)\<rparr>"

text \<open>\<open>t.float()\<close>.\<close>

definition t_float :: "'v runtime \<Rightarrow> 'v tensor \<Rightarrow> 'v tensor" where
  "t_float rt t = t\<lparr>dtype := Float32, elems := map (to_dtype rt (dtype t) Float32) (elems t)\<rparr>"

text \<open>
  \<open>torch.cat([a, b], dim=-1)\<close> on two-dimensional tensors: the row counts must agree; row
  \<open>i\<close> of the result is row \<open>i\<close> of \<open>a\<close> followed by row \<open>i\<close> of \<open>b\<close>, both converted to
  the promoted element type.
\<close>

definition t_cat :: "'v runtime \<Rightarrow> 'v tensor \<Rightarrow> 'v tensor \<Rightarrow> error + 'v tensor" where
  "t_cat rt a b =
     (case (shape a, shape b) of
        ([r, ca], [r', cb]) \<Rightarrow>
          if r \<noteq> r' then Inl TorchRuntimeError
          else
            let dt = promote_types rt (dtype a) (dtype b) in
            Inr \<lparr>dtype = dt, shape = [r, ca + cb],
                 elems = concat (map (\<lambda>i. map (to_dtype rt (dtype a) dt) (slice ca i (elems a)) @
                                           map (to_dtype rt (dtype b) dt) (slice cb i (elems b)))
                                     [0..<r])\<rparr>
      | _ \<Rightarrow> Inl TorchRuntimeError)"

text \<open>
  \<open>dst.copy_(src)\<close>: \<open>src\<close> is broadcast to the shape of \<open>dst\<close> and converted to its element
  type; it raises when the shapes are not broadcastable.
\<close>

definition t_copy :: "'v runtime \<Rightarrow> 'v tensor \<Rightarrow> 'v tensor \<Rightarrow> error + 'v tensor" where
  "t_copy rt dst src =
     (if broadcastable (rev (shape src)) (rev (shape dst))
      then Inr (dst\<lparr>elems := map (to_dtype rt (dtype src) (dtype dst))
                                  (expand (shape dst) (shape src) (elems src))\<rparr>)
      else Inl TorchRuntimeError)"

section \<open>The engine\<close>

record quantization_config =
  group_size :: int
  q_dtype :: dtype
  q_range_dtype :: dtype

text \<open>
  The fields of an \<open>FP_Quantize\<close> object. \<open>kernel\<close> is the module loaded at construction;
  \<open>self.is_fallback\<close> is \<open>kernel = None\<close>, and the function handles chosen in \<open>__init__\<close>
  are the dispatch functions below. The session fields \<open>self.orig_dtype\<close>,
  \<open>self.orig_shape\<close>, \<open>self.num_groups\<close>, \<open>self.input_q\<close> and \<open>self.scale\<close> carry the
  prefix \<open>self_\<close>, which keeps them apart from the parameters \<open>input_q\<close> and \<open>scale\<close> of
  the methods. \<open>self.orig_shape\<close> is not assigned in \<open>__init__\<close>, so the attribute is
  missing until \<open>quantize\<close> records it; \<open>self.input_q\<close> is removed by \<open>del\<close> after a
  meta-tensor extraction. The methods \<open>to\<close> and \<open>get_scales\<close> are outside this
  development.

  \<open>allocs\<close> is not a field of the class: it is the list of the tensors that the methods
  of the object have requested with \<open>torch.ones\<close> and \<open>torch.empty\<close>, in the order of
  the requests, kept so that "before any buffer allocation" can be stated.
\<close>

record 'v FP_Quantize =
  kernel :: "'v fp_quant_module option"
  q_config :: quantization_config
  self_orig_dtype :: "dtype option"
  self_orig_shape :: "nat list attr"
  self_num_groups :: "int option"
  self_input_q :: "'v tensor option attr"
  self_scale :: "'v tensor option"
  allocs :: "(dtype \<times> nat list) list"

definition FP_Quantize_init ::
  "'v fp_quant_module option \<Rightarrow> quantization_config \<Rightarrow> 'v FP_Quantize" where
  "FP_Quantize_init loaded quantization_config =
     \<lparr>kernel = loaded, q_config = quantization_config,
      self_orig_dtype = None,
      self_orig_shape = Missing, self_num_groups = None,
      self_input_q = Value None, self_scale = None,
      allocs = []\<rparr>"

definition is_fallback :: "'v FP_Quantize \<Rightarrow> bool" where
  "is_fallback s = (kernel s = None)"

text \<open>
  The chain \<open>if q_bits == 8 ... elif q_bits == 12 ... else assert (0)\<close>, which the three
  public methods repeat word for word (lines 75-85, 127-137, 164-174).
\<close>

definition resolve_mantisa :: "int \<Rightarrow> int \<Rightarrow> error + int" where
  "resolve_mantisa q_bits q_mantisa_bits =
     (if q_bits = 8 then Inr q_mantisa_bits
      else if q_bits = 12 then Inr 4
      else if q_bits = 6 then Inr 2
      else if q_bits = 4 then Inr 1
      else Inl UnsupportedPrecision)"

subsection \<open>The fallback routines\<close>

text \<open>
  \<open>quantize_fallback\<close> (lines 194-216). The parameter \<open>group_size\<close> of the backend
  routines is written \<open>group_width\<close> here and below, since \<open>group_size\<close> is the field of
  the configuration. The scale is stored in \<open>self.scale\<close> before the cast, so a cast
  that raises leaves it behind. The row maximum over a dimension of size 0 raises in
  torch.
\<close>

definition quantize_fallback ::
  "'v runtime \<Rightarrow> 'v tensor \<Rightarrow> 'v tensor \<Rightarrow> int \<Rightarrow> bool \<Rightarrow> int \<Rightarrow> int \<Rightarrow> 'v FP_Quantize
   \<Rightarrow> (error + 'v tensor) \<times> 'v FP_Quantize" where
  "quantize_fallback rt out val group_width stochastic_rounding q_bits q_mantisa_bits s =
     (if q_bits \<noteq> 8 then (Inl NotImplemented, s)
      else if q_mantisa_bits \<noteq> 3 then (Inl NotImplemented, s)
      else case hpu_device rt of
        None \<Rightarrow> (Inl ImportError, s)
      | Some dev \<Rightarrow>
          if dev = Gaudi2 \<and> q_range_dtype (q_config s) \<noteq> Float8_e4m3fnuz
          then (Inl Gaudi2Dtype, s)
          else case self_num_groups s of
            None \<Rightarrow> (Inl TypeError, s)
          | Some ng \<Rightarrow>
              (case t_reshape [ng, group_width] val of
                 Inl e \<Rightarrow> (Inl e, s)
               | Inr v \<Rightarrow>
                   let val_reshaped = t_float rt v in
                   if group_width = 0 then (Inl TorchRuntimeError, s)
                   else case finfo_max rt (q_range_dtype (q_config s)) of
                     None \<Rightarrow> (Inl TypeError, s)
                   | Some q_range \<Rightarrow>
                       let max_vals =
                             map (\<lambda>g. row_max rt (map (f_abs rt)
                                         (slice (nat group_width) g (elems val_reshaped))))
                                 [0..<nat ng];
                           sc = \<lparr>dtype = Float32, shape = [nat ng, 1],
                                 elems = map (f_div rt q_range) max_vals\<rparr>;
                           s1 = s\<lparr>self_scale := Some sc\<rparr>
                       in case cast_to_fp8_v2 rt val_reshaped sc stochastic_rounding
                                 (q_dtype (q_config s)) of
                            Inl e \<Rightarrow> (Inl e, s1)
                          | Inr quant \<Rightarrow>
                              (case t_copy rt out quant of
                                 Inl e \<Rightarrow> (Inl e, s1)
                               | Inr out' \<Rightarrow> (Inr out', s1))))"

text \<open>
  \<open>dequantize_fallback\<close> (lines 188-192). It reads \<open>self.scale\<close>, not a scale passed by
  the caller; \<open>1.0 / None\<close> raises TypeError.
\<close>

definition dequantize_fallback ::
  "'v runtime \<Rightarrow> 'v tensor \<Rightarrow> 'v tensor \<Rightarrow> int \<Rightarrow> int \<Rightarrow> int \<Rightarrow> 'v FP_Quantize
   \<Rightarrow> error + 'v tensor" where
  "dequantize_fallback rt fp_out input_q group_width q_mantisa_bits q_exponent_bits s =
     (case hpu_device rt of
        None \<Rightarrow> Inl AttributeError
      | Some dev \<Rightarrow>
          (case self_scale s of
             None \<Rightarrow> Inl TypeError
           | Some sc \<Rightarrow>
               (case self_orig_dtype s of
                  None \<Rightarrow> Inl TypeError
                | Some dt \<Rightarrow>
                    (case cast_from_fp8 rt input_q
                            (sc\<lparr>elems := map (f_div rt (one rt)) (elems sc)\<rparr>) dt of
                       Inl e \<Rightarrow> Inl e
                     | Inr d \<Rightarrow>
                         (case self_orig_shape s of
                            Missing \<Rightarrow> Inl AttributeError
                          | Value shp \<Rightarrow>
                              (case t_reshape (map int shp) d of
                                 Inl e \<Rightarrow> Inl e
                               | Inr dequant_out \<Rightarrow> t_copy rt fp_out dequant_out))))))"

text \<open>\<open>selective_dequantize_fallback\<close> (lines 185-186): \<open>assert False\<close>.\<close>

definition selective_dequantize_fallback ::
  "'v tensor \<Rightarrow> 'v tensor \<Rightarrow> int list \<Rightarrow> int \<Rightarrow> int \<Rightarrow> int \<Rightarrow> error + 'v tensor" where
  "selective_dequantize_fallback val_q scales indexes group_width q_mantisa_bits q_exponent_bits =
     Inl NotImplemented"

subsection \<open>Dispatch\<close>

text \<open>
  The handles \<open>self.quantize_func\<close>, \<open>self.dequantize_func\<close> and
  \<open>self.selective_dequantize_func\<close> chosen in \<open>__init__\<close> (lines 51-54). The kernels write
  into \<open>out\<close>; \<open>quantize_func\<close> returns the written buffer.
\<close>

definition quantize_func ::
  "'v runtime \<Rightarrow> 'v tensor \<Rightarrow> 'v tensor \<Rightarrow> int \<Rightarrow> bool \<Rightarrow> int \<Rightarrow> int \<Rightarrow> 'v FP_Quantize
   \<Rightarrow> (error + 'v tensor) \<times> 'v FP_Quantize" where
  "quantize_func rt out val group_width stochastic q_bits q_mantisa_bits s =
     (case kernel s of
        None \<Rightarrow> quantize_fallback rt out val group_width stochastic q_bits q_mantisa_bits s
      | Some K \<Rightarrow>
          (case k_quantize K out val group_width stochastic q_bits q_mantisa_bits of
             Inl e \<Rightarrow> (Inl e, s)
           | Inr written \<Rightarrow> (Inr (out\<lparr>elems := written\<rparr>), s)))"

definition dequantize_func ::
  "'v runtime \<Rightarrow> 'v tensor \<Rightarrow> 'v tensor \<Rightarrow> int \<Rightarrow> int \<Rightarrow> int \<Rightarrow> 'v FP_Quantize
   \<Rightarrow> error + 'v tensor" where
  "dequantize_func rt fp_out input_q group_width q_mantisa_bits q_exponent_bits s =
     (case kernel s of
        None \<Rightarrow> dequantize_fallback rt fp_out input_q group_width q_mantisa_bits q_exponent_bits s
      | Some K \<Rightarrow>
          (case k_dequantize K fp_out input_q group_width q_mantisa_bits q_exponent_bits of
             Inl e \<Rightarrow> Inl e
           | Inr written \<Rightarrow> Inr (fp_out\<lparr>elems := written\<rparr>)))"

definition selective_dequantize_func ::
  "'v tensor \<Rightarrow> 'v tensor \<Rightarrow> int list \<Rightarrow> int \<Rightarrow> int \<Rightarrow> int \<Rightarrow> 'v FP_Quantize
   \<Rightarrow> error + 'v tensor" where
  "selective_dequantize_func fp_out input_q indexes group_width q_mantisa_bits q_exponent_bits s =
     (case kernel s of
        None \<Rightarrow> selective_dequantize_fallback fp_out input_q indexes group_width
                  q_mantisa_bits q_exponent_bits
      | Some K \<Rightarrow>
          (case k_selective_dequantize K fp_out input_q indexes group_width
                  q_mantisa_bits q_exponent_bits of
             Inl e \<Rightarrow> Inl e
           | Inr written \<Rightarrow> Inr (fp_out\<lparr>elems := written\<rparr>)))"

subsection \<open>\<open>quantize\<close>\<close>

text \<open>
  What \<open>quantize\<close> returns: the packed buffer, or the pair \<open>(data, scale)\<close> when
  \<open>return_meta_tensor\<close> is set.
\<close>

datatype 'v quantized = Packed "'v tensor" | Meta "'v tensor" "'v tensor"

text \<open>
  Lines 97-108, the branch \<open>if return_meta_tensor\<close>. The unpacking
  \<open>data, self.scale = out.split(group_size, dim=-1)\<close> raises ValueError unless the split
  yields exactly two chunks, and assigns nothing in that case. \<open>contiguous()\<close> changes the
  memory layout only; \<open>gc.collect()\<close> and \<open>empty_cache()\<close> change no field.
\<close>

definition extract_meta ::
  "'v tensor \<Rightarrow> 'v tensor \<Rightarrow> int \<Rightarrow> 'v FP_Quantize \<Rightarrow> (error + 'v quantized) \<times> 'v FP_Quantize" where
  "extract_meta input out group_width s =
     (case (if \<not> is_fallback s
            then (case t_split group_width out of
                    Inl e \<Rightarrow> (Inl e, s)
                  | Inr [data, sc] \<Rightarrow>
                      (t_reshape (map int (shape input)) data, s\<lparr>self_scale := Some sc\<rparr>)
                  | Inr _ \<Rightarrow> (Inl ValueError, s))
            else (t_reshape (map int (shape input)) out, s)) of
        (Inl e, s1) \<Rightarrow> (Inl e, s1)
      | (Inr data, s1) \<Rightarrow>
          (case self_scale s1 of
             None \<Rightarrow> (Inl AttributeError, s1)
           | Some sc \<Rightarrow>
               (case self_input_q s1 of
                  Missing \<Rightarrow> (Inl AttributeError, s1)
                | Value b \<Rightarrow> (Inr (Meta data sc), s1\<lparr>self_input_q := Missing\<rparr>))))"

text \<open>
  Lines 87-95: the group count, the width of a row of the buffer, and the buffer.
  \<open>//\<close> is floor division, as \<open>div\<close> on \<open>int\<close>, and raises ZeroDivisionError on a zero
  divisor. The local variable \<open>group_size\<close> of \<open>quantize\<close> is \<open>row_width\<close>.
\<close>

definition row_width :: "'v FP_Quantize \<Rightarrow> int \<Rightarrow> int \<Rightarrow> int" where
  "row_width s n q_bits =
     (let w = (min (group_size (q_config s)) n * q_bits) div 8
      in if \<not> is_fallback s then w + 4 else w)"

definition quantize_alloc ::
  "'v runtime \<Rightarrow> 'v tensor \<Rightarrow> int \<Rightarrow> 'v FP_Quantize \<Rightarrow> (error + 'v tensor) \<times> 'v FP_Quantize" where
  "quantize_alloc rt input q_bits s =
     (if group_size (q_config s) = 0 then (Inl ZeroDivisionError, s)
      else
        let ng = (numel input + group_size (q_config s) - 1) div group_size (q_config s);
            s2 = s\<lparr>self_num_groups := Some ng\<rparr>
        in case torch_ones rt [ng, row_width s2 (numel input) q_bits] (q_dtype (q_config s2)) of
             Inl e \<Rightarrow> (Inl e, s2)
           | Inr buf \<Rightarrow>
               (Inr buf, s2\<lparr>self_input_q := Value (Some buf),
                           allocs := allocs s2 @ [(dtype buf, shape buf)]\<rparr>))"

text \<open>
  Lines 96-110: the call of the backend and the result. The buffer \<open>self.input_q\<close> is the
  object passed as \<open>out\<close>, so what the backend writes into \<open>out\<close> is written into
  \<open>self.input_q\<close>.
\<close>

definition quantize_finish ::
  "'v runtime \<Rightarrow> 'v tensor \<Rightarrow> 'v tensor \<Rightarrow> int \<Rightarrow> int \<Rightarrow> bool \<Rightarrow> bool \<Rightarrow> 'v FP_Quantize
   \<Rightarrow> (error + 'v quantized) \<times> 'v FP_Quantize" where
  "quantize_finish rt input buf q_bits q_mantisa_bits stochastic_mode return_meta_tensor s =
     (case quantize_func rt buf input (row_width s (numel input) q_bits) stochastic_mode
             q_bits q_mantisa_bits s of
        (Inl e, s4) \<Rightarrow> (Inl e, s4)
      | (Inr out, s4) \<Rightarrow>
          let s5 = s4\<lparr>self_input_q := Value (Some out)\<rparr>
          in if return_meta_tensor
             then extract_meta input out (row_width s (numel input) q_bits) s5
             else (Inr (Packed out), s5))"

text \<open>
  \<open>quantize\<close> (lines 62-110). An exception leaves the object as the statements before it
  made it, so every result carries the state.
\<close>

definition quantize ::
  "'v runtime \<Rightarrow> 'v tensor \<Rightarrow> int \<Rightarrow> int \<Rightarrow> bool \<Rightarrow> bool \<Rightarrow> 'v FP_Quantize
   \<Rightarrow> (error + 'v quantized) \<times> 'v FP_Quantize" where
  "quantize rt input q_bits q_mantisa_bits stochastic_mode return_meta_tensor s =
     (if dtype input \<noteq> BFloat16 then (Inl InvalidInputDtype, s)
      else if return_meta_tensor \<and> q_bits \<noteq> 8 then (Inl MetaTensorPrecision, s)
      else
        let s1 = s\<lparr>self_orig_dtype := Some (dtype input),
                   self_orig_shape := Value (shape input)\<rparr>
        in case resolve_mantisa q_bits q_mantisa_bits of
             Inl e \<Rightarrow> (Inl e, s1)
           | Inr m \<Rightarrow>
               (case quantize_alloc rt input q_bits s1 of
                  (Inl e, s2) \<Rightarrow> (Inl e, s2)
                | (Inr buf, s3) \<Rightarrow>
                    quantize_finish rt input buf q_bits m stochastic_mode return_meta_tensor s3))"

subsection \<open>\<open>dequantize\<close> and \<open>selective_dequantize\<close>\<close>

text \<open>
  Lines 139-142 and 176-179, the same in both methods: with an explicit scale on the
  accelerated backend the element counts are compared, then the codes are reshaped to
  rows of \<open>group_size\<close> and the scale is appended to each row.
\<close>

definition cat_scale ::
  "'v runtime \<Rightarrow> 'v tensor \<Rightarrow> 'v tensor \<Rightarrow> 'v tensor \<Rightarrow> 'v FP_Quantize \<Rightarrow> error + 'v tensor" where
  "cat_scale rt input_q fp_out sc s =
     (if numel input_q \<noteq> numel fp_out then Inl ShapeMismatch
      else case t_reshape [-1, group_size (q_config s)] input_q of
             Inl e \<Rightarrow> Inl e
           | Inr r \<Rightarrow> t_cat rt r sc)"

text \<open>
  \<open>dequantize\<close> (lines 122-148). \<open>fp_out\<close> is allocated before the bit width is
  looked at. The state changes in \<open>allocs\<close> only.
\<close>

definition dequantize ::
  "'v runtime \<Rightarrow> 'v tensor \<Rightarrow> 'v tensor option \<Rightarrow> int \<Rightarrow> int \<Rightarrow> 'v tensor option
   \<Rightarrow> 'v FP_Quantize \<Rightarrow> (error + 'v tensor) \<times> 'v FP_Quantize" where
  "dequantize rt input_q fp_out q_bits q_mantisa_bits scale s =
     (case self_orig_dtype s of
        None \<Rightarrow> (Inl SequenceError, s)
      | Some dt \<Rightarrow>
          (case (case fp_out of
                   Some given \<Rightarrow> (Inr given, s)
                 | None \<Rightarrow>
                     (case self_orig_shape s of
                        Missing \<Rightarrow> (Inl AttributeError, s)
                      | Value shp \<Rightarrow>
                          (Inr (torch_empty rt shp dt), s\<lparr>allocs := allocs s @ [(dt, shp)]\<rparr>))) of
             (Inl e, s1) \<Rightarrow> (Inl e, s1)
           | (Inr fp_out1, s1) \<Rightarrow>
               (case resolve_mantisa q_bits q_mantisa_bits of
                  Inl e \<Rightarrow> (Inl e, s1)
                | Inr m \<Rightarrow>
                    (case (case scale of
                             None \<Rightarrow> Inr input_q
                           | Some sc \<Rightarrow>
                               if \<not> is_fallback s1 then cat_scale rt input_q fp_out1 sc s1
                               else t_reshape
                                      [-1, (min (group_size (q_config s1)) (numel input_q) * q_bits) div 8]
                                      input_q) of
                       Inl e \<Rightarrow> (Inl e, s1)
                     | Inr input_q1 \<Rightarrow>
                         (dequantize_func rt fp_out1 input_q1 (group_size (q_config s1)) m
                            (q_bits - m - 1) s1, s1)))))"

text \<open>
  \<open>selective_dequantize\<close> (lines 150-183). \<open>indexes\<close> is a one-dimensional tensor of
  integers, so \<open>indexes.shape[0]\<close> is its length. The first assertion holds when the
  attribute \<open>orig_shape\<close> is missing.
\<close>

definition selective_dequantize ::
  "'v runtime \<Rightarrow> 'v tensor \<Rightarrow> int list \<Rightarrow> 'v tensor option \<Rightarrow> int \<Rightarrow> int \<Rightarrow> 'v tensor option
   \<Rightarrow> 'v FP_Quantize \<Rightarrow> (error + 'v tensor) \<times> 'v FP_Quantize" where
  "selective_dequantize rt input_q indexes fp_out q_bits q_mantisa_bits scale s =
     (if \<not> (case self_orig_shape s of Missing \<Rightarrow> True | Value shp \<Rightarrow> length shp = 3)
      then (Inl ShapeMismatch, s)
      else case self_orig_dtype s of
        None \<Rightarrow> (Inl SequenceError, s)
      | Some dt \<Rightarrow>
          (case (case fp_out of
                   Some given \<Rightarrow> (Inr given, s)
                 | None \<Rightarrow>
                     (case self_orig_shape s of
                        Missing \<Rightarrow> (Inl AttributeError, s)
                      | Value shp \<Rightarrow>
                          (Inr (torch_empty rt (length indexes # drop 1 shp) dt),
                           s\<lparr>allocs := allocs s @ [(dt, length indexes # drop 1 shp)]\<rparr>))) of
             (Inl e, s1) \<Rightarrow> (Inl e, s1)
           | (Inr fp_out1, s1) \<Rightarrow>
               (case resolve_mantisa q_bits q_mantisa_bits of
                  Inl e \<Rightarrow> (Inl e, s1)
                | Inr m \<Rightarrow>
                    (case (case scale of
                             None \<Rightarrow> Inr input_q
                           | Some sc \<Rightarrow>
                               if \<not> is_fallback s1 then cat_scale rt input_q fp_out1 sc s1
                               else Inr input_q) of
                       Inl e \<Rightarrow> (Inl e, s1)
                     | Inr input_q1 \<Rightarrow>
                         (selective_dequantize_func fp_out1 input_q1 indexes
                            (group_size (q_config s1)) m (q_bits - m - 1) s1, s1)))))"

section \<open>A concrete engine\<close>

text \<open>
  An instance of the parameters over integer values, on which the theorems below are
  evaluated: conversions keep the value, division is integer division, the two casts
  keep the codes, and the kernels fill \<open>out\<close> with a number made of the precision
  arguments they received.
\<close>

definition example_runtime :: "int runtime" where
  "example_runtime =
     \<lparr>one = 1, uninit = 0,
      to_dtype = (\<lambda>a b v. v),
      promote_types = (\<lambda>a b. b),
      f_abs = abs,
      f_div = (\<lambda>a b. a div b),
      row_max = (\<lambda>xs. foldl max (hd xs) (tl xs)),
      finfo_max = (\<lambda>dt. if dt = Float8_e4m3fnuz then Some 240
                          else if dt = Float8_e4m3fn then Some 448 else None),
      hpu_device = Some Gaudi2,
      cast_to_fp8_v2 = (\<lambda>v sc stochastic dt. Inr (v\<lparr>dtype := dt\<rparr>)),
      cast_from_fp8 = (\<lambda>q sc dt. Inr (q\<lparr>dtype := dt\<rparr>))\<rparr>"

definition example_kernel :: "int fp_quant_module" where
  "example_kernel =
     \<lparr>k_quantize = (\<lambda>out inp w stochastic q m. Inr (replicate (length (elems out)) (100 * q + m))),
      k_dequantize = (\<lambda>out inp g m e. Inr (replicate (length (elems out)) (100 * m + e))),
      k_selective_dequantize =
        (\<lambda>out inp idx g m e. Inr (replicate (length (elems out)) (100 * m + e)))\<rparr>"

definition example_config :: quantization_config where
  "example_config = \<lparr>group_size = 4, q_dtype = Float8_e4m3fnuz, q_range_dtype = Float8_e4m3fnuz\<rparr>"

definition example_input :: "int tensor" where
  "example_input = \<lparr>dtype = BFloat16, shape = [2, 4], elems = [1, -2, 3, -4, 5, 6, -8, 7]\<rparr>"

definition example_input3 :: "int tensor" where
  "example_input3 = \<lparr>dtype = BFloat16, shape = [2, 2, 2], elems = [1, -2, 3, -4, 5, 6, -8, 7]\<rparr>"

definition example_accel_engine :: "int FP_Quantize" where
  "example_accel_engine = FP_Quantize_init (Some example_kernel) example_config"

definition example_fallback_engine :: "int FP_Quantize" where
  "example_fallback_engine = FP_Quantize_init None example_config"

text \<open>The two engines after a successful \<open>quantize\<close> at 8 bits.\<close>

definition example_accel_session :: "int FP_Quantize" where
  "example_accel_session =
     snd (quantize example_runtime example_input3 8 3 False False example_accel_engine)"

definition example_fallback_session :: "int FP_Quantize" where
  "example_fallback_session =
     snd (quantize example_runtime example_input 8 3 False False example_fallback_engine)"

definition example_fallback_session3 :: "int FP_Quantize" where
  "example_fallback_session3 =
     snd (quantize example_runtime example_input3 8 3 False False example_fallback_engine)"

text \<open>Codes and a caller's output tensor of twice as many elements.\<close>

definition example_codes :: "int tensor" where
  "example_codes = \<lparr>dtype = Float8_e4m3fnuz, shape = [2, 4], elems = [1, -2, 3, -4, 5, 6, -8, 7]\<rparr>"

definition example_scale :: "int tensor" where
  "example_scale = \<lparr>dtype = Float32, shape = [2, 1], elems = [60, 30]\<rparr>"

definition example_wide_out :: "int tensor" where
  "example_wide_out = \<lparr>dtype = BFloat16, shape = [2, 2, 4], elems = replicate 16 0\<rparr>"


section \<open>Auxiliary facts\<close>

subsection \<open>Arithmetic of the group count and the row width\<close>

lemma ceil_div:
  assumes "0 < (G::int)"
  shows "(N + G - 1) div G = \<lceil>real_of_int N / real_of_int G\<rceil>"
proof -
  define q where "q = (- N) div G"
  define r where "r = (- N) mod G"
  have r: "0 \<le> r" "r < G" using assms by (simp_all add: r_def)
  have "- N = G * q + r" by (simp add: q_def r_def)
  then have "N + G - 1 = G * (- q) + (G - 1 - r)" by (simp add: algebra_simps)
  then have "(N + G - 1) div G = - q"
    using r by (intro int_div_pos_eq [where r = "G - 1 - r"]) auto
  then show ?thesis by (simp add: ceiling_divide_eq_div q_def)
qed

lemma floor_div8: "(x::int) div 8 = \<lfloor>real_of_int x / 8\<rfloor>"
  by linarith

subsection \<open>What the stages of \<open>quantize\<close> leave unchanged\<close>

lemma quantize_fallback_frame:
  "self_num_groups (snd (quantize_fallback rt out val gw st q m s)) = self_num_groups s \<and>
   allocs (snd (quantize_fallback rt out val gw st q m s)) = allocs s \<and>
   self_input_q (snd (quantize_fallback rt out val gw st q m s)) = self_input_q s \<and>
   self_orig_dtype (snd (quantize_fallback rt out val gw st q m s)) = self_orig_dtype s \<and>
   self_orig_shape (snd (quantize_fallback rt out val gw st q m s)) = self_orig_shape s \<and>
   kernel (snd (quantize_fallback rt out val gw st q m s)) = kernel s \<and>
   q_config (snd (quantize_fallback rt out val gw st q m s)) = q_config s"
  by (simp add: quantize_fallback_def Let_def split: option.split sum.split)

lemma quantize_func_frame:
  "self_num_groups (snd (quantize_func rt out val gw st q m s)) = self_num_groups s \<and>
   allocs (snd (quantize_func rt out val gw st q m s)) = allocs s \<and>
   self_input_q (snd (quantize_func rt out val gw st q m s)) = self_input_q s \<and>
   self_orig_dtype (snd (quantize_func rt out val gw st q m s)) = self_orig_dtype s \<and>
   self_orig_shape (snd (quantize_func rt out val gw st q m s)) = self_orig_shape s \<and>
   kernel (snd (quantize_func rt out val gw st q m s)) = kernel s \<and>
   q_config (snd (quantize_func rt out val gw st q m s)) = q_config s"
  by (simp add: quantize_func_def quantize_fallback_frame split: option.split sum.split)

lemma extract_meta_frame:
  "self_num_groups (snd (extract_meta input out gw s)) = self_num_groups s \<and>
   allocs (snd (extract_meta input out gw s)) = allocs s \<and>
   self_orig_dtype (snd (extract_meta input out gw s)) = self_orig_dtype s \<and>
   self_orig_shape (snd (extract_meta input out gw s)) = self_orig_shape s \<and>
   kernel (snd (extract_meta input out gw s)) = kernel s \<and>
   q_config (snd (extract_meta input out gw s)) = q_config s"
  by (simp add: extract_meta_def split: option.split sum.split list.split attr.split)

lemma resolve_supported:
  "q_bits \<in> {4, 6, 8, 12} \<Longrightarrow> \<exists>m'. resolve_mantisa q_bits m = Inr m'"
  by (auto simp: resolve_mantisa_def)

lemma row_width_update [simp]:
  "row_width (s\<lparr>self_orig_dtype := a\<rparr>) = row_width s"
  "row_width (s\<lparr>self_orig_shape := b\<rparr>) = row_width s"
  "row_width (s\<lparr>self_num_groups := c\<rparr>) = row_width s"
  "row_width (s\<lparr>self_input_q := d\<rparr>) = row_width s"
  "row_width (s\<lparr>self_scale := e\<rparr>) = row_width s"
  "row_width (s\<lparr>allocs := f\<rparr>) = row_width s"
  by (simp_all add: row_width_def is_fallback_def fun_eq_iff)


lemma quantize_alloc_ok:
  assumes "group_size (q_config s) \<noteq> 0"
    "0 \<le> (numel input + group_size (q_config s) - 1) div group_size (q_config s)"
    "0 \<le> row_width s (numel input) q_bits"
  shows "quantize_alloc rt input q_bits s =
     (Inr \<lparr>dtype = q_dtype (q_config s),
           shape = [nat ((numel input + group_size (q_config s) - 1) div group_size (q_config s)),
                    nat (row_width s (numel input) q_bits)],
           elems = replicate (nat ((numel input + group_size (q_config s) - 1) div group_size (q_config s))
                              * nat (row_width s (numel input) q_bits)) (one rt)\<rparr>,
      s\<lparr>self_num_groups := Some ((numel input + group_size (q_config s) - 1) div group_size (q_config s)),
        self_input_q := Value (Some \<lparr>dtype = q_dtype (q_config s),
           shape = [nat ((numel input + group_size (q_config s) - 1) div group_size (q_config s)),
                    nat (row_width s (numel input) q_bits)],
           elems = replicate (nat ((numel input + group_size (q_config s) - 1) div group_size (q_config s))
                              * nat (row_width s (numel input) q_bits)) (one rt)\<rparr>),
        allocs := allocs s @ [(q_dtype (q_config s),
           [nat ((numel input + group_size (q_config s) - 1) div group_size (q_config s)),
            nat (row_width s (numel input) q_bits)])]\<rparr>)"
  using assms by (simp add: quantize_alloc_def Let_def torch_ones_def torch_full_def)

lemma quantize_finish_frame:
  "self_num_groups (snd (quantize_finish rt input buf q m st rmt s)) = self_num_groups s \<and>
   allocs (snd (quantize_finish rt input buf q m st rmt s)) = allocs s \<and>
   self_orig_dtype (snd (quantize_finish rt input buf q m st rmt s)) = self_orig_dtype s \<and>
   self_orig_shape (snd (quantize_finish rt input buf q m st rmt s)) = self_orig_shape s \<and>
   kernel (snd (quantize_finish rt input buf q m st rmt s)) = kernel s \<and>
   q_config (snd (quantize_finish rt input buf q m st rmt s)) = q_config s"
proof -
  obtain r s4 where qf: "quantize_func rt buf input (row_width s (numel input) q) st q m s = (r, s4)"
    by (cases "quantize_func rt buf input (row_width s (numel input) q) st q m s") auto
  have fr: "self_num_groups s4 = self_num_groups s" "allocs s4 = allocs s"
     "self_orig_dtype s4 = self_orig_dtype s" "self_orig_shape s4 = self_orig_shape s"
     "kernel s4 = kernel s" "q_config s4 = q_config s"
    using quantize_func_frame [of rt buf input "row_width s (numel input) q" st q m s] qf by simp_all
  show ?thesis
    by (cases r) (simp_all add: quantize_finish_def qf fr Let_def extract_meta_frame)
qed

lemma quantize_alloc_frame:
  "kernel (snd (quantize_alloc rt input q_bits s)) = kernel s \<and>
   q_config (snd (quantize_alloc rt input q_bits s)) = q_config s \<and>
   self_orig_dtype (snd (quantize_alloc rt input q_bits s)) = self_orig_dtype s \<and>
   self_orig_shape (snd (quantize_alloc rt input q_bits s)) = self_orig_shape s \<and>
   self_scale (snd (quantize_alloc rt input q_bits s)) = self_scale s"
  by (simp add: quantize_alloc_def Let_def split: sum.split)

lemma resolve_mantisa_8: "resolve_mantisa q_bits m = Inr m' \<Longrightarrow> q_bits = 8 \<Longrightarrow> m' = m"
  by (simp add: resolve_mantisa_def)

lemma quantize_past_checks:
  assumes "dtype input = BFloat16" "\<not> (return_meta_tensor \<and> q_bits \<noteq> 8)"
    "resolve_mantisa q_bits q_mantisa_bits = Inr m"
  shows "quantize rt input q_bits q_mantisa_bits stochastic_mode return_meta_tensor s =
     (case quantize_alloc rt input q_bits
             (s\<lparr>self_orig_dtype := Some BFloat16, self_orig_shape := Value (shape input)\<rparr>) of
        (Inl e, s2) \<Rightarrow> (Inl e, s2)
      | (Inr buf, s3) \<Rightarrow>
          quantize_finish rt input buf q_bits m stochastic_mode return_meta_tensor s3)"
  using assms by (auto simp: quantize_def Let_def)

subsection \<open>Evaluation of the concrete engine\<close>

lemmas example_defs = example_runtime_def example_kernel_def example_config_def example_input_def
  example_input3_def example_accel_engine_def example_fallback_engine_def example_codes_def
  example_scale_def example_wide_out_def

lemmas model_defs = quantize_def quantize_alloc_def quantize_finish_def quantize_func_def
  quantize_fallback_def extract_meta_def row_width_def is_fallback_def resolve_mantisa_def
  FP_Quantize_init_def torch_ones_def torch_full_def torch_empty_def t_reshape_def t_float_def
  t_copy_def t_cat_def t_split_def columns_def slice_def numel_def Let_def
  dequantize_def selective_dequantize_def cat_scale_def dequantize_func_def
  selective_dequantize_func_def dequantize_fallback_def selective_dequantize_fallback_def

lemma example_accel_session_eq:
  "example_accel_session =
     \<lparr>kernel = Some example_kernel, q_config = example_config,
      self_orig_dtype = Some BFloat16, self_orig_shape = Value [2, 2, 2],
      self_num_groups = Some 2,
      self_input_q = Value (Some \<lparr>dtype = Float8_e4m3fnuz, shape = [2, 8],
                                  elems = replicate 16 803\<rparr>),
      self_scale = None, allocs = [(Float8_e4m3fnuz, [2, 8])]\<rparr>"
  by (simp add: example_accel_session_def example_defs model_defs)

lemma example_fallback_session_eq:
  "example_fallback_session =
     \<lparr>kernel = None, q_config = example_config,
      self_orig_dtype = Some BFloat16, self_orig_shape = Value [2, 4],
      self_num_groups = Some 2,
      self_input_q = Value (Some \<lparr>dtype = Float8_e4m3fnuz, shape = [2, 4],
                                  elems = [1, -2, 3, -4, 5, 6, -8, 7]\<rparr>),
      self_scale = Some \<lparr>dtype = Float32, shape = [2, 1], elems = [60, 30]\<rparr>,
      allocs = [(Float8_e4m3fnuz, [2, 4])]\<rparr>"
  by (simp add: example_fallback_session_def example_defs model_defs upt_rec)

lemma example_fallback_session3_eq:
  "example_fallback_session3 =
     \<lparr>kernel = None, q_config = example_config,
      self_orig_dtype = Some BFloat16, self_orig_shape = Value [2, 2, 2],
      self_num_groups = Some 2,
      self_input_q = Value (Some \<lparr>dtype = Float8_e4m3fnuz, shape = [2, 4],
                                  elems = [1, -2, 3, -4, 5, 6, -8, 7]\<rparr>),
      self_scale = Some \<lparr>dtype = Float32, shape = [2, 1], elems = [60, 30]\<rparr>,
      allocs = [(Float8_e4m3fnuz, [2, 4])]\<rparr>"
  by (simp add: example_fallback_session3_def example_defs model_defs upt_rec)

section \<open>The claims\<close>

subsection \<open>C5: group count and shape of the quantized buffer\<close>

text \<open>
  C5. For an input of \<open>N \<ge> 1\<close> elements (of type bfloat16, the only one \<open>quantize\<close>
  accepts), a group size \<open>G > 0\<close> and \<open>q_bits\<close> among 4, 6, 8, 12 (8 when the meta tensor
  is asked for), \<open>quantize\<close> records \<open>num_groups = \<lceil>N / G\<rceil>\<close> and requests exactly one
  buffer, of shape \<open>[num_groups, W]\<close> with \<open>W = \<lfloor>min(G, N) * q_bits / 8\<rfloor>\<close>, plus 4
  bytes per row if and only if the engine is not on the fallback backend. This holds
  whether or not the backend call that follows succeeds.
\<close>

theorem quantize_group_count_and_buffer_shape:
  assumes "dtype input = BFloat16" and "1 \<le> numel input" and "0 < group_size (q_config s)"
    and "q_bits \<in> {4, 6, 8, 12}" and "return_meta_tensor \<longrightarrow> q_bits = 8"
  shows "self_num_groups (snd (quantize rt input q_bits q_mantisa_bits stochastic_mode return_meta_tensor s))
           = Some \<lceil>real_of_int (numel input) / real_of_int (group_size (q_config s))\<rceil> \<and>
         allocs (snd (quantize rt input q_bits q_mantisa_bits stochastic_mode return_meta_tensor s))
           = allocs s @
             [(q_dtype (q_config s),
               [nat \<lceil>real_of_int (numel input) / real_of_int (group_size (q_config s))\<rceil>,
                nat (\<lfloor>real_of_int (min (group_size (q_config s)) (numel input) * q_bits) / 8\<rfloor>
                     + (if is_fallback s then 0 else 4))])]"
proof -
  let ?G = "group_size (q_config s)"
  let ?N = "numel input"
  let ?s1 = "s\<lparr>self_orig_dtype := Some (dtype input), self_orig_shape := Value (shape input)\<rparr>"
  obtain m where m: "resolve_mantisa q_bits q_mantisa_bits = Inr m"
    using resolve_supported [OF assms(4)] by blast
  have ng: "0 \<le> (?N + ?G - 1) div ?G"
    using assms(2,3) by (simp add: pos_imp_zdiv_nonneg_iff)
  have q: "0 \<le> q_bits" using assms(4) by auto
  have "0 \<le> min ?G ?N * q_bits" using assms(2,3) q by simp
  then have w: "0 \<le> (min ?G ?N * q_bits) div 8"
    by (simp add: pos_imp_zdiv_nonneg_iff)
  have rw: "row_width s ?N q_bits = (min ?G ?N * q_bits) div 8 + (if is_fallback s then 0 else 4)"
    by (simp add: row_width_def Let_def is_fallback_def)
  have rw0: "0 \<le> row_width ?s1 ?N q_bits" using w by (simp add: rw)
  have G1: "group_size (q_config ?s1) \<noteq> 0"
    "0 \<le> (?N + group_size (q_config ?s1) - 1) div group_size (q_config ?s1)"
    using assms(3) ng by simp_all
  have g: "\<not> (return_meta_tensor \<and> q_bits \<noteq> 8)" using assms(5) by blast
  obtain buf s3 where al: "quantize_alloc rt input q_bits ?s1 = (Inr buf, s3)"
    and s3: "self_num_groups s3 = Some ((?N + ?G - 1) div ?G)"
            "allocs s3 = allocs s @ [(q_dtype (q_config s),
               [nat ((?N + ?G - 1) div ?G), nat (row_width s ?N q_bits)])]"
    using quantize_alloc_ok [of ?s1 input q_bits rt, OF G1 rw0] by simp
  have eq: "quantize rt input q_bits q_mantisa_bits stochastic_mode return_meta_tensor s =
        quantize_finish rt input buf q_bits m stochastic_mode return_meta_tensor s3"
    using al assms(1) g m by (auto simp add: quantize_def Let_def)
  have "self_num_groups (snd (quantize rt input q_bits q_mantisa_bits stochastic_mode return_meta_tensor s))
          = Some ((?N + ?G - 1) div ?G)"
    by (simp only: eq quantize_finish_frame s3)
  moreover have "allocs (snd (quantize rt input q_bits q_mantisa_bits stochastic_mode return_meta_tensor s))
          = allocs s @ [(q_dtype (q_config s),
               [nat ((?N + ?G - 1) div ?G), nat (row_width s ?N q_bits)])]"
    by (simp only: eq quantize_finish_frame s3)
  ultimately show ?thesis
    by (simp only: rw ceil_div [OF assms(3)] floor_div8)
qed

theorem quantize_group_count_and_buffer_shape_witness:
  "dtype example_input = BFloat16 \<and> 1 \<le> numel example_input \<and> 0 < group_size example_config \<and>
   self_num_groups (snd (quantize example_runtime example_input 4 3 False False
       (FP_Quantize_init (Some example_kernel) example_config))) = Some 2 \<and>
   allocs (snd (quantize example_runtime example_input 4 3 False False
       (FP_Quantize_init (Some example_kernel) example_config))) = [(Float8_e4m3fnuz, [2, 6])] \<and>
   allocs (snd (quantize example_runtime example_input 4 3 False False
       (FP_Quantize_init None example_config))) = [(Float8_e4m3fnuz, [2, 2])]"
  using quantize_group_count_and_buffer_shape
          [of example_input "FP_Quantize_init (Some example_kernel) example_config" 4 False
              example_runtime 3 False]
        quantize_group_count_and_buffer_shape
          [of example_input "FP_Quantize_init None example_config" 4 False
              example_runtime 3 False]
  by (simp add: example_input_def example_config_def FP_Quantize_init_def numel_def
        is_fallback_def)

subsection \<open>C8: a fresh engine\<close>

text \<open>
  C8. On the engine as \<open>__init__\<close> leaves it, every call of \<open>dequantize\<close> and every call
  of \<open>selective_dequantize\<close> fails with SequenceError and changes nothing. In
  \<open>selective_dequantize\<close> the rank check comes first and holds, since the attribute
  \<open>orig_shape\<close> does not exist yet; the failure is therefore never ShapeMismatch.
\<close>

theorem fresh_engine_dequantize_sequence_error:
  "dequantize rt input_q fp_out q_bits q_mantisa_bits scale (FP_Quantize_init loaded cfg)
     = (Inl SequenceError, FP_Quantize_init loaded cfg) \<and>
   selective_dequantize rt input_q indexes fp_out q_bits q_mantisa_bits scale
       (FP_Quantize_init loaded cfg)
     = (Inl SequenceError, FP_Quantize_init loaded cfg)"
  by (simp add: dequantize_def selective_dequantize_def FP_Quantize_init_def)

theorem fresh_engine_dequantize_sequence_error_witness:
  "fst (dequantize example_runtime example_codes None 8 3 None example_fallback_engine)
     = Inl SequenceError \<and>
   fst (selective_dequantize example_runtime example_codes [1, 0, 1] None 8 3 (Some example_scale)
          example_accel_engine)
     = Inl SequenceError"
  using fresh_engine_dequantize_sequence_error
          [of example_runtime example_codes None 8 3 None None example_config]
        fresh_engine_dequantize_sequence_error
          [of example_runtime example_codes None 8 3 "Some example_scale" "Some example_kernel"
              example_config "[1, 0, 1]"]
  by (simp add: example_fallback_engine_def example_accel_engine_def)

subsection \<open>C9: \<open>selective_dequantize\<close> on tensors of rank 3\<close>

lemma selective_dequantize_rank:
  "self_orig_shape s = Value shp \<Longrightarrow> length shp \<noteq> 3 \<Longrightarrow>
   selective_dequantize rt input_q indexes fp_out q_bits q_mantisa_bits scale s
     = (Inl ShapeMismatch, s)"
  by (simp add: selective_dequantize_def)

lemma selective_dequantize_result_shape:
  "selective_dequantize rt input_q indexes None q_bits q_mantisa_bits scale s = (Inr t, s') \<Longrightarrow>
   \<exists>shp. self_orig_shape s = Value shp \<and> length shp = 3 \<and>
     shape t = length indexes # drop 1 shp \<and> self_orig_dtype s = Some (dtype t)"
  by (auto simp: selective_dequantize_def selective_dequantize_func_def
      selective_dequantize_fallback_def torch_empty_def
      split: if_splits option.splits attr.splits sum.splits)

lemma selective_dequantize_accelerated:
  assumes "kernel s = Some K" "self_orig_dtype s = Some dt" "self_orig_shape s = Value shp"
    "length shp = 3" "resolve_mantisa q_bits q_mantisa_bits = Inr m"
    "k_selective_dequantize K (torch_empty rt (length indexes # drop 1 shp) dt) input_q indexes
        (group_size (q_config s)) m (q_bits - m - 1) = Inr written"
  shows "selective_dequantize rt input_q indexes None q_bits q_mantisa_bits None s
     = (Inr \<lparr>dtype = dt, shape = length indexes # drop 1 shp, elems = written\<rparr>,
        s\<lparr>allocs := allocs s @ [(dt, length indexes # drop 1 shp)]\<rparr>)"
  using assms
  by (simp add: selective_dequantize_def selective_dequantize_func_def torch_empty_def)

text \<open>
  C9. When the shape recorded by \<open>quantize\<close> is not of rank 3, \<open>selective_dequantize\<close>
  fails with ShapeMismatch. When it returns a tensor and no output tensor was supplied,
  the recorded shape has rank 3 and the tensor has shape
  \<open>[len(indexes), *orig_shape[1:]]\<close> and the recorded element type. On the accelerated
  backend it does return that tensor (with the contents the kernel wrote) whenever the
  bit width is supported, no scale is passed and the kernel does not raise.
\<close>

theorem selective_dequantize_rank3_and_result_shape:
  "(self_orig_shape s = Value shp \<and> length shp \<noteq> 3 \<longrightarrow>
      selective_dequantize rt input_q indexes fp_out q_bits q_mantisa_bits scale s
        = (Inl ShapeMismatch, s)) \<and>
   (selective_dequantize rt input_q indexes None q_bits q_mantisa_bits scale s = (Inr t, s') \<longrightarrow>
      (\<exists>orig. self_orig_shape s = Value orig \<and> length orig = 3 \<and>
         shape t = length indexes # drop 1 orig \<and> self_orig_dtype s = Some (dtype t))) \<and>
   (kernel s = Some K \<and> self_orig_dtype s = Some dt \<and> self_orig_shape s = Value shp \<and>
    length shp = 3 \<and> resolve_mantisa q_bits q_mantisa_bits = Inr m \<and>
    k_selective_dequantize K (torch_empty rt (length indexes # drop 1 shp) dt) input_q indexes
        (group_size (q_config s)) m (q_bits - m - 1) = Inr written \<longrightarrow>
      selective_dequantize rt input_q indexes None q_bits q_mantisa_bits None s
        = (Inr \<lparr>dtype = dt, shape = length indexes # drop 1 shp, elems = written\<rparr>,
           s\<lparr>allocs := allocs s @ [(dt, length indexes # drop 1 shp)]\<rparr>))"
  using selective_dequantize_rank [of s shp rt input_q indexes fp_out q_bits q_mantisa_bits scale]
    selective_dequantize_result_shape [of rt input_q indexes q_bits q_mantisa_bits scale s t s']
    selective_dequantize_accelerated [of s K dt shp q_bits q_mantisa_bits m rt indexes input_q written]
  by blast

theorem selective_dequantize_rank3_and_result_shape_witness:
  "selective_dequantize example_runtime example_codes [1, 0, 1] None 8 3 None example_fallback_session
     = (Inl ShapeMismatch, example_fallback_session) \<and>
   selective_dequantize example_runtime example_codes [1, 0, 1] None 8 3 None example_accel_session
     = (Inr \<lparr>dtype = BFloat16, shape = [3, 2, 2], elems = replicate 12 304\<rparr>,
        example_accel_session\<lparr>allocs := [(Float8_e4m3fnuz, [2, 8]), (BFloat16, [3, 2, 2])]\<rparr>)"
  using selective_dequantize_rank3_and_result_shape
          [where s = example_fallback_session and shp = "[2, 4]" and rt = example_runtime
             and input_q = example_codes and indexes = "[1, 0, 1]" and fp_out = None
             and q_bits = 8 and q_mantisa_bits = 3 and scale = None]
        selective_dequantize_rank3_and_result_shape
          [where s = example_accel_session and shp = "[2, 2, 2]" and rt = example_runtime
             and input_q = example_codes and indexes = "[1, 0, 1]"
             and q_bits = 8 and q_mantisa_bits = 3 and K = example_kernel and dt = BFloat16
             and m = 3 and written = "replicate 12 304"]
  by (simp add: example_fallback_session_eq example_accel_session_eq resolve_mantisa_def
        torch_empty_def example_kernel_def example_config_def)

subsection \<open>C10: what the fallback backend does not implement\<close>

lemma quantize_finish_fallback_precision:
  "kernel s = None \<Longrightarrow> \<not> (q_bits = 8 \<and> m = 3) \<Longrightarrow>
   quantize_finish rt input buf q_bits m stochastic_mode return_meta_tensor s
     = (Inl NotImplemented, s)"
  by (auto simp: quantize_finish_def quantize_func_def quantize_fallback_def)

lemma quantize_fallback_precision_fails:
  assumes "kernel s = None" "\<not> (q_bits = 8 \<and> q_mantisa_bits = 3)"
  shows "isl (fst (quantize rt input q_bits q_mantisa_bits stochastic_mode return_meta_tensor s))"
proof (cases "dtype input = BFloat16 \<and> \<not> (return_meta_tensor \<and> q_bits \<noteq> 8)")
  case False
  then show ?thesis by (auto simp: quantize_def)
next
  case True
  show ?thesis
  proof (cases "resolve_mantisa q_bits q_mantisa_bits")
    case (Inl e)
    then show ?thesis by (simp add: quantize_def Let_def)
  next
    case (Inr m)
    let ?s1 = "s\<lparr>self_orig_dtype := Some BFloat16, self_orig_shape := Value (shape input)\<rparr>"
    have m: "\<not> (q_bits = 8 \<and> m = 3)" using assms(2) resolve_mantisa_8 [OF Inr] by blast
    obtain r s3 where al: "quantize_alloc rt input q_bits ?s1 = (r, s3)"
      by (cases "quantize_alloc rt input q_bits ?s1") auto
    have k: "kernel s3 = None"
      using quantize_alloc_frame [of rt input q_bits ?s1] al assms(1) by simp
    have "quantize rt input q_bits q_mantisa_bits stochastic_mode return_meta_tensor s =
          (case (r, s3) of (Inl e, s2) \<Rightarrow> (Inl e, s2)
           | (Inr buf, s3) \<Rightarrow>
               quantize_finish rt input buf q_bits m stochastic_mode return_meta_tensor s3)"
      using True by (simp add: quantize_past_checks [OF _ _ Inr] al)
    then show ?thesis
      using quantize_finish_fallback_precision [OF k m]
      by (cases r) simp_all
  qed
qed

lemma selective_dequantize_fallback_always_fails:
  "kernel s = None \<Longrightarrow>
   isl (fst (selective_dequantize rt input_q indexes fp_out q_bits q_mantisa_bits scale s))"
  by (auto simp: selective_dequantize_def selective_dequantize_func_def
      selective_dequantize_fallback_def split: option.splits attr.splits sum.splits)

lemma selective_dequantize_fallback_reached:
  "kernel s = None \<Longrightarrow> self_orig_dtype s = Some dt \<Longrightarrow> self_orig_shape s = Value shp \<Longrightarrow>
   length shp = 3 \<Longrightarrow> q_bits \<in> {4, 6, 8, 12} \<Longrightarrow>
   fst (selective_dequantize rt input_q indexes fp_out q_bits q_mantisa_bits scale s)
     = Inl NotImplemented"
  by (auto simp: selective_dequantize_def selective_dequantize_func_def is_fallback_def
      selective_dequantize_fallback_def resolve_mantisa_def split: option.splits)

text \<open>
  C10 (amended). On the fallback backend the routine \<open>selective_dequantize_fallback\<close>
  fails with NotImplemented for every input, so \<open>selective_dequantize\<close> always fails;
  it fails with NotImplemented once its own checks have passed (a rank-3 shape and an
  element type recorded by \<open>quantize\<close>, a supported bit width), and with the error of the
  first failing check otherwise. \<open>quantize\<close> fails for every precision combination
  other than \<open>q_bits = 8\<close> with \<open>q_mantisa_bits = 3\<close>.
\<close>

theorem fallback_unimplemented_paths_fail:
  assumes "kernel s = None"
  shows "selective_dequantize_fallback val_q scales indexes g m e = Inl NotImplemented \<and>
    isl (fst (selective_dequantize rt input_q indexes fp_out q_bits q_mantisa_bits scale s)) \<and>
    (self_orig_dtype s = Some dt \<and> self_orig_shape s = Value shp \<and> length shp = 3 \<and>
     q_bits \<in> {4, 6, 8, 12} \<longrightarrow>
       fst (selective_dequantize rt input_q indexes fp_out q_bits q_mantisa_bits scale s)
         = Inl NotImplemented) \<and>
    (\<not> (q_bits = 8 \<and> q_mantisa_bits = 3) \<longrightarrow>
       isl (fst (quantize rt input q_bits q_mantisa_bits stochastic_mode return_meta_tensor s)))"
proof (intro conjI impI)
  show "selective_dequantize_fallback val_q scales indexes g m e = Inl NotImplemented"
    by (simp add: selective_dequantize_fallback_def)
  show "isl (fst (selective_dequantize rt input_q indexes fp_out q_bits q_mantisa_bits scale s))"
    by (rule selective_dequantize_fallback_always_fails [OF assms])
  show "fst (selective_dequantize rt input_q indexes fp_out q_bits q_mantisa_bits scale s)
          = Inl NotImplemented"
    if "self_orig_dtype s = Some dt \<and> self_orig_shape s = Value shp \<and> length shp = 3 \<and>
        q_bits \<in> {4, 6, 8, 12}"
    using that selective_dequantize_fallback_reached [OF assms] by blast
  show "isl (fst (quantize rt input q_bits q_mantisa_bits stochastic_mode return_meta_tensor s))"
    if "\<not> (q_bits = 8 \<and> q_mantisa_bits = 3)"
    by (rule quantize_fallback_precision_fails [OF assms that])
qed

theorem fallback_unimplemented_paths_fail_witness:
  "kernel example_fallback_session3 = None \<and>
   fst (selective_dequantize example_runtime example_codes [1, 0, 1] None 8 3 None
          example_fallback_session3) = Inl NotImplemented \<and>
   isl (fst (quantize example_runtime example_input 8 2 False False example_fallback_session3))"
  using fallback_unimplemented_paths_fail
          [where s = example_fallback_session3 and dt = BFloat16 and shp = "[2, 2, 2]"
             and q_bits = 8 and q_mantisa_bits = 2 and rt = example_runtime
             and input_q = example_codes and indexes = "[1, 0, 1]" and fp_out = None
             and scale = None and input = example_input and stochastic_mode = False
             and return_meta_tensor = False and val_q = example_codes
             and scales = example_scale and g = 4 and m = 2 and e = 5]
        fallback_unimplemented_paths_fail
          [where s = example_fallback_session3 and dt = BFloat16 and shp = "[2, 2, 2]"
             and q_bits = 8 and q_mantisa_bits = 3 and rt = example_runtime
             and input_q = example_codes and indexes = "[1, 0, 1]" and fp_out = None
             and scale = None and val_q = example_codes
             and scales = example_scale and g = 4 and m = 3 and e = 4]
  by (simp add: example_fallback_session3_eq)

text \<open>
  The claim as first stated asks for NotImplemented on every input. On a fresh fallback
  engine \<open>selective_dequantize\<close> stops at the assertion that \<open>quantize\<close> was called, and
  after a \<open>quantize\<close> of a rank-3 tensor it stops at the bit-width chain when \<open>q_bits\<close>
  is 5.
\<close>

theorem fallback_selective_dequantize_counterexample:
  "kernel example_fallback_engine = None \<and>
   fst (selective_dequantize example_runtime example_codes [1, 0, 1] None 8 3 None
          example_fallback_engine) = Inl SequenceError \<and>
   fst (selective_dequantize example_runtime example_codes [1, 0, 1] None 8 3 None
          example_fallback_engine) \<noteq> Inl NotImplemented \<and>
   kernel example_fallback_session3 = None \<and>
   fst (selective_dequantize example_runtime example_codes [1, 0, 1] None 5 3 None
          example_fallback_session3) = Inl UnsupportedPrecision \<and>
   fst (selective_dequantize example_runtime example_codes [1, 0, 1] None 5 3 None
          example_fallback_session3) \<noteq> Inl NotImplemented"
  by (simp add: example_fallback_engine_def example_fallback_session3_eq FP_Quantize_init_def
        selective_dequantize_def resolve_mantisa_def)

subsection \<open>C3: the session state after a failed \<open>quantize\<close>\<close>

lemma quantize_input_checks:
  "dtype input \<noteq> BFloat16 \<Longrightarrow>
     quantize rt input q_bits q_mantisa_bits stochastic_mode return_meta_tensor s
       = (Inl InvalidInputDtype, s)"
  "dtype input = BFloat16 \<Longrightarrow> return_meta_tensor \<Longrightarrow> q_bits \<noteq> 8 \<Longrightarrow>
     quantize rt input q_bits q_mantisa_bits stochastic_mode return_meta_tensor s
       = (Inl MetaTensorPrecision, s)"
  by (simp_all add: quantize_def)

lemma resolve_unsupported:
  "q_bits \<notin> {4, 6, 8, 12} \<Longrightarrow> resolve_mantisa q_bits q_mantisa_bits = Inl UnsupportedPrecision"
  by (simp add: resolve_mantisa_def)

lemma quantize_unsupported:
  "dtype input = BFloat16 \<Longrightarrow> \<not> return_meta_tensor \<Longrightarrow> q_bits \<notin> {4, 6, 8, 12} \<Longrightarrow>
     quantize rt input q_bits q_mantisa_bits stochastic_mode return_meta_tensor s
       = (Inl UnsupportedPrecision,
          s\<lparr>self_orig_dtype := Some BFloat16, self_orig_shape := Value (shape input)\<rparr>)"
  by (simp add: quantize_def resolve_mantisa_def)

lemma dequantize_fresh:
  "self_orig_dtype s = None \<Longrightarrow>
   dequantize rt input_q fp_out q_bits q_mantisa_bits scale s = (Inl SequenceError, s)"
  by (simp add: dequantize_def)

text \<open>
  C3 (amended). A \<open>quantize\<close> that fails at one of its two input checks
  (InvalidInputDtype for an input that is not bfloat16, or the meta-tensor check when
  \<open>return_meta_tensor\<close> is set and \<open>q_bits\<close> is not 8) leaves the session state unchanged,
  so that a subsequent \<open>dequantize\<close> on an otherwise fresh engine still fails with
  SequenceError. A \<open>quantize\<close> that fails with UnsupportedPrecision has already recorded
  \<open>orig_dtype\<close> and \<open>orig_shape\<close>, and has changed nothing else.
\<close>

theorem failed_quantize_session_state:
  "(dtype input \<noteq> BFloat16 \<longrightarrow>
      quantize rt input q_bits q_mantisa_bits stochastic_mode return_meta_tensor s
        = (Inl InvalidInputDtype, s)) \<and>
   (dtype input = BFloat16 \<and> return_meta_tensor \<and> q_bits \<noteq> 8 \<longrightarrow>
      quantize rt input q_bits q_mantisa_bits stochastic_mode return_meta_tensor s
        = (Inl MetaTensorPrecision, s)) \<and>
   (dtype input \<noteq> BFloat16 \<or> return_meta_tensor \<and> q_bits \<noteq> 8 \<longrightarrow>
      dequantize rt input_q fp_out q_bits' q_mantisa_bits' scale
          (snd (quantize rt input q_bits q_mantisa_bits stochastic_mode return_meta_tensor
                  (FP_Quantize_init loaded cfg)))
        = (Inl SequenceError, FP_Quantize_init loaded cfg)) \<and>
   (dtype input = BFloat16 \<and> \<not> return_meta_tensor \<and> q_bits \<notin> {4, 6, 8, 12} \<longrightarrow>
      quantize rt input q_bits q_mantisa_bits stochastic_mode return_meta_tensor s
        = (Inl UnsupportedPrecision,
           s\<lparr>self_orig_dtype := Some BFloat16, self_orig_shape := Value (shape input)\<rparr>))"
proof (intro conjI impI)
  show "quantize rt input q_bits q_mantisa_bits stochastic_mode return_meta_tensor s
        = (Inl InvalidInputDtype, s)" if "dtype input \<noteq> BFloat16"
    by (rule quantize_input_checks(1) [OF that])
  show "quantize rt input q_bits q_mantisa_bits stochastic_mode return_meta_tensor s
        = (Inl MetaTensorPrecision, s)"
    if "dtype input = BFloat16 \<and> return_meta_tensor \<and> q_bits \<noteq> 8"
    using that quantize_input_checks(2) by blast
  show "dequantize rt input_q fp_out q_bits' q_mantisa_bits' scale
          (snd (quantize rt input q_bits q_mantisa_bits stochastic_mode return_meta_tensor
                  (FP_Quantize_init loaded cfg)))
        = (Inl SequenceError, FP_Quantize_init loaded cfg)"
    if "dtype input \<noteq> BFloat16 \<or> return_meta_tensor \<and> q_bits \<noteq> 8"
  proof -
    have "snd (quantize rt input q_bits q_mantisa_bits stochastic_mode return_meta_tensor
                  (FP_Quantize_init loaded cfg)) = FP_Quantize_init loaded cfg"
      using that by (cases "dtype input = BFloat16") (auto simp: quantize_input_checks)
    then show ?thesis
      by (simp add: dequantize_fresh FP_Quantize_init_def)
  qed
  show "quantize rt input q_bits q_mantisa_bits stochastic_mode return_meta_tensor s
        = (Inl UnsupportedPrecision,
           s\<lparr>self_orig_dtype := Some BFloat16, self_orig_shape := Value (shape input)\<rparr>)"
    if "dtype input = BFloat16 \<and> \<not> return_meta_tensor \<and> q_bits \<notin> {4, 6, 8, 12}"
    using that quantize_unsupported by blast
qed

theorem failed_quantize_session_state_witness:
  "quantize example_runtime example_scale 8 3 False False example_accel_engine
     = (Inl InvalidInputDtype, example_accel_engine) \<and>
   quantize example_runtime example_input 4 3 False True example_accel_engine
     = (Inl MetaTensorPrecision, example_accel_engine) \<and>
   dequantize example_runtime example_codes None 8 3 None
       (snd (quantize example_runtime example_input 4 3 False True example_accel_engine))
     = (Inl SequenceError, example_accel_engine) \<and>
   quantize example_runtime example_input 5 3 False False example_accel_engine
     = (Inl UnsupportedPrecision,
        example_accel_engine\<lparr>self_orig_dtype := Some BFloat16, self_orig_shape := Value [2, 4]\<rparr>)"
  using failed_quantize_session_state
          [where input = example_scale and rt = example_runtime and q_bits = 8
             and q_mantisa_bits = 3 and stochastic_mode = False and return_meta_tensor = False
             and s = example_accel_engine]
        failed_quantize_session_state
          [where input = example_input and rt = example_runtime and q_bits = 4
             and q_mantisa_bits = 3 and stochastic_mode = False and return_meta_tensor = True
             and s = example_accel_engine and loaded = "Some example_kernel"
             and cfg = example_config and input_q = example_codes and fp_out = None
             and q_bits' = 8 and q_mantisa_bits' = 3 and scale = None]
        failed_quantize_session_state
          [where input = example_input and rt = example_runtime and q_bits = 5
             and q_mantisa_bits = 3 and stochastic_mode = False and return_meta_tensor = False
             and s = example_accel_engine]
  by (auto simp add: example_scale_def example_input_def example_accel_engine_def)

text \<open>
  With \<open>q_bits = 5\<close> on a bfloat16 input, \<open>quantize\<close> fails with UnsupportedPrecision
  after lines 72-73 have run: \<open>orig_dtype\<close> is no longer \<open>None\<close>, and the \<open>dequantize\<close>
  that follows does not stop at its first assertion.
\<close>

theorem failed_quantize_keeps_state_counterexample:
  "fst (quantize example_runtime example_input 5 3 False False example_accel_engine)
     = Inl UnsupportedPrecision \<and>
   self_orig_dtype example_accel_engine = None \<and>
   self_orig_dtype (snd (quantize example_runtime example_input 5 3 False False example_accel_engine))
     = Some BFloat16 \<and>
   fst (dequantize example_runtime example_codes None 8 3 None
         (snd (quantize example_runtime example_input 5 3 False False example_accel_engine)))
     \<noteq> Inl SequenceError"
  by (simp add: example_defs model_defs)

subsection \<open>C6: resolution of the bit width\<close>

lemma resolve_mantisa_table:
  "resolve_mantisa 12 q_mantisa_bits = Inr 4"
  "resolve_mantisa 6 q_mantisa_bits = Inr 2"
  "resolve_mantisa 4 q_mantisa_bits = Inr 1"
  "resolve_mantisa 8 q_mantisa_bits = Inr q_mantisa_bits"
  by (simp_all add: resolve_mantisa_def)

lemma dequantize_unsupported:
  "self_orig_dtype s = Some dt \<Longrightarrow> q_bits \<notin> {4, 6, 8, 12} \<Longrightarrow>
     dequantize rt input_q (Some given) q_bits q_mantisa_bits scale s
       = (Inl UnsupportedPrecision, s)"
  "self_orig_dtype s = Some dt \<Longrightarrow> self_orig_shape s = Value shp \<Longrightarrow> q_bits \<notin> {4, 6, 8, 12} \<Longrightarrow>
     dequantize rt input_q None q_bits q_mantisa_bits scale s
       = (Inl UnsupportedPrecision, s\<lparr>allocs := allocs s @ [(dt, shp)]\<rparr>)"
  by (simp_all add: dequantize_def resolve_mantisa_def)

lemma selective_dequantize_unsupported:
  "self_orig_dtype s = Some dt \<Longrightarrow> self_orig_shape s = Value shp \<Longrightarrow> length shp = 3 \<Longrightarrow>
   q_bits \<notin> {4, 6, 8, 12} \<Longrightarrow>
     selective_dequantize rt input_q indexes (Some given) q_bits q_mantisa_bits scale s
       = (Inl UnsupportedPrecision, s)"
  "self_orig_dtype s = Some dt \<Longrightarrow> self_orig_shape s = Value shp \<Longrightarrow> length shp = 3 \<Longrightarrow>
   q_bits \<notin> {4, 6, 8, 12} \<Longrightarrow>
     selective_dequantize rt input_q indexes None q_bits q_mantisa_bits scale s
       = (Inl UnsupportedPrecision,
          s\<lparr>allocs := allocs s @ [(dt, length indexes # drop 1 shp)]\<rparr>)"
  by (simp_all add: selective_dequantize_def resolve_mantisa_def)

lemma dequantize_passes_bits:
  "self_orig_dtype s = Some dt \<Longrightarrow> resolve_mantisa q_bits q_mantisa_bits = Inr m \<Longrightarrow>
     dequantize rt input_q (Some given) q_bits q_mantisa_bits None s
       = (dequantize_func rt given input_q (group_size (q_config s)) m (q_bits - m - 1) s, s)"
  by (simp add: dequantize_def)

lemma selective_dequantize_passes_bits:
  "self_orig_dtype s = Some dt \<Longrightarrow> self_orig_shape s = Value shp \<Longrightarrow> length shp = 3 \<Longrightarrow>
   resolve_mantisa q_bits q_mantisa_bits = Inr m \<Longrightarrow>
     selective_dequantize rt input_q indexes (Some given) q_bits q_mantisa_bits None s
       = (selective_dequantize_func given input_q indexes (group_size (q_config s)) m
            (q_bits - m - 1) s, s)"
  by (simp add: selective_dequantize_def)

text \<open>
  C6 (amended). The mantissa width is read from a table over 4, 6, 8 and 12 bits: for
  \<open>q_bits\<close> 12, 6 and 4 it is 4, 2 and 1 whatever the caller passed, for 8 it is the
  caller's value, and any other \<open>q_bits\<close> is an UnsupportedPrecision. The resolved
  mantissa width \<open>m\<close> is what \<open>quantize\<close> hands to its backend together with \<open>q_bits\<close>,
  and \<open>dequantize\<close> and \<open>selective_dequantize\<close> hand \<open>m\<close> and the exponent width
  \<open>q_bits - m - 1\<close> to theirs. With an unsupported \<open>q_bits\<close>,
  \<^item> \<open>quantize\<close> on a bfloat16 input without \<open>return_meta_tensor\<close> fails with
    UnsupportedPrecision before any buffer is requested (only \<open>orig_dtype\<close> and
    \<open>orig_shape\<close> have been recorded);
  \<^item> \<open>dequantize\<close>, once a \<open>quantize\<close> has recorded the element type, and
    \<open>selective_dequantize\<close>, once it has recorded a rank-3 shape as well, fail with
    UnsupportedPrecision; the output tensor has then already been requested when the
    caller supplied none.
\<close>

theorem bit_width_resolution:
  "resolve_mantisa 12 q_mantisa_bits = Inr 4 \<and>
   resolve_mantisa 6 q_mantisa_bits = Inr 2 \<and>
   resolve_mantisa 4 q_mantisa_bits = Inr 1 \<and>
   resolve_mantisa 8 q_mantisa_bits = Inr q_mantisa_bits \<and>
   (q_bits \<notin> {4, 6, 8, 12} \<longrightarrow>
      resolve_mantisa q_bits q_mantisa_bits = Inl UnsupportedPrecision) \<and>
   (dtype input = BFloat16 \<and> \<not> return_meta_tensor \<and> q_bits \<notin> {4, 6, 8, 12} \<longrightarrow>
      quantize rt input q_bits q_mantisa_bits stochastic_mode return_meta_tensor s
        = (Inl UnsupportedPrecision,
           s\<lparr>self_orig_dtype := Some BFloat16, self_orig_shape := Value (shape input)\<rparr>)) \<and>
   (self_orig_dtype s = Some dt \<and> q_bits \<notin> {4, 6, 8, 12} \<longrightarrow>
      dequantize rt input_q (Some given) q_bits q_mantisa_bits scale s
        = (Inl UnsupportedPrecision, s)) \<and>
   (self_orig_dtype s = Some dt \<and> self_orig_shape s = Value shp \<and> q_bits \<notin> {4, 6, 8, 12} \<longrightarrow>
      dequantize rt input_q None q_bits q_mantisa_bits scale s
        = (Inl UnsupportedPrecision, s\<lparr>allocs := allocs s @ [(dt, shp)]\<rparr>)) \<and>
   (self_orig_dtype s = Some dt \<and> self_orig_shape s = Value shp \<and> length shp = 3 \<and>
    q_bits \<notin> {4, 6, 8, 12} \<longrightarrow>
      selective_dequantize rt input_q indexes (Some given) q_bits q_mantisa_bits scale s
        = (Inl UnsupportedPrecision, s) \<and>
      selective_dequantize rt input_q indexes None q_bits q_mantisa_bits scale s
        = (Inl UnsupportedPrecision,
           s\<lparr>allocs := allocs s @ [(dt, length indexes # drop 1 shp)]\<rparr>)) \<and>
   (dtype input = BFloat16 \<and> \<not> (return_meta_tensor \<and> q_bits \<noteq> 8) \<and>
    resolve_mantisa q_bits q_mantisa_bits = Inr m \<longrightarrow>
      quantize rt input q_bits q_mantisa_bits stochastic_mode return_meta_tensor s
        = (case quantize_alloc rt input q_bits
                  (s\<lparr>self_orig_dtype := Some BFloat16, self_orig_shape := Value (shape input)\<rparr>) of
             (Inl e, s2) \<Rightarrow> (Inl e, s2)
           | (Inr buf, s3) \<Rightarrow>
               quantize_finish rt input buf q_bits m stochastic_mode return_meta_tensor s3)) \<and>
   (self_orig_dtype s = Some dt \<and> resolve_mantisa q_bits q_mantisa_bits = Inr m \<longrightarrow>
      dequantize rt input_q (Some given) q_bits q_mantisa_bits None s
        = (dequantize_func rt given input_q (group_size (q_config s)) m (q_bits - m - 1) s, s)) \<and>
   (self_orig_dtype s = Some dt \<and> self_orig_shape s = Value shp \<and> length shp = 3 \<and>
    resolve_mantisa q_bits q_mantisa_bits = Inr m \<longrightarrow>
      selective_dequantize rt input_q indexes (Some given) q_bits q_mantisa_bits None s
        = (selective_dequantize_func given input_q indexes (group_size (q_config s)) m
             (q_bits - m - 1) s, s))"
proof (intro conjI impI; (elim conjE)?)
  show "resolve_mantisa 12 q_mantisa_bits = Inr 4" "resolve_mantisa 6 q_mantisa_bits = Inr 2"
    "resolve_mantisa 4 q_mantisa_bits = Inr 1" "resolve_mantisa 8 q_mantisa_bits = Inr q_mantisa_bits"
    by (rule resolve_mantisa_table)+
qed (simp_all only: resolve_unsupported quantize_unsupported dequantize_unsupported
       selective_dequantize_unsupported quantize_past_checks dequantize_passes_bits
       selective_dequantize_passes_bits not_False_eq_True)


theorem bit_width_resolution_witness:
  "resolve_mantisa 12 3 = Inr 4 \<and>
   quantize example_runtime example_input 5 3 False False example_accel_session
     = (Inl UnsupportedPrecision,
        example_accel_session\<lparr>self_orig_dtype := Some BFloat16, self_orig_shape := Value [2, 4]\<rparr>) \<and>
   dequantize example_runtime example_codes (Some example_wide_out) 5 3 None example_accel_session
     = (Inl UnsupportedPrecision, example_accel_session) \<and>
   dequantize example_runtime example_codes (Some example_wide_out) 12 3 None example_accel_session
     = (Inr (example_wide_out\<lparr>elems := replicate 16 407\<rparr>), example_accel_session) \<and>
   selective_dequantize example_runtime example_codes [1, 0, 1] (Some example_wide_out) 6 3 None
       example_accel_session
     = (Inr (example_wide_out\<lparr>elems := replicate 16 203\<rparr>), example_accel_session)"
  using bit_width_resolution
          [where q_bits = 5 and q_mantisa_bits = 3 and input = example_input
             and return_meta_tensor = False and stochastic_mode = False and rt = example_runtime
             and s = example_accel_session and dt = BFloat16 and shp = "[2, 2, 2]"
             and input_q = example_codes and given = example_wide_out and scale = None
             and indexes = "[1, 0, 1]" and m = 3]
        bit_width_resolution
          [where q_bits = 12 and q_mantisa_bits = 3 and input = example_input
             and return_meta_tensor = False and stochastic_mode = False and rt = example_runtime
             and s = example_accel_session and dt = BFloat16 and shp = "[2, 2, 2]"
             and input_q = example_codes and given = example_wide_out and scale = None
             and indexes = "[1, 0, 1]" and m = 4]
        bit_width_resolution
          [where q_bits = 6 and q_mantisa_bits = 3 and input = example_input
             and return_meta_tensor = False and stochastic_mode = False and rt = example_runtime
             and s = example_accel_session and dt = BFloat16 and shp = "[2, 2, 2]"
             and input_q = example_codes and given = example_wide_out and scale = None
             and indexes = "[1, 0, 1]" and m = 2]
  by (simp add: example_accel_session_eq example_input_def example_wide_out_def
        example_config_def example_kernel_def dequantize_func_def selective_dequantize_func_def)

text \<open>
  Three calls with \<open>q_bits = 5\<close>: \<open>dequantize\<close> on a fresh engine stops at SequenceError;
  \<open>quantize\<close> with \<open>return_meta_tensor\<close> stops at the meta-tensor check; and
  \<open>dequantize\<close> after a \<open>quantize\<close> reports UnsupportedPrecision only after line 125
  has requested the output tensor.
\<close>

theorem unsupported_precision_order_counterexample:
  "fst (dequantize example_runtime example_codes None 5 3 None example_accel_engine)
     = Inl SequenceError \<and>
   fst (dequantize example_runtime example_codes None 5 3 None example_accel_engine)
     \<noteq> Inl UnsupportedPrecision \<and>
   fst (quantize example_runtime example_input 5 3 False True example_accel_engine)
     \<noteq> Inl UnsupportedPrecision \<and>
   fst (dequantize example_runtime example_codes None 5 3 None example_accel_session)
     = Inl UnsupportedPrecision \<and>
   allocs (snd (dequantize example_runtime example_codes None 5 3 None example_accel_session))
     = allocs example_accel_session @ [(BFloat16, [2, 2, 2])]"
  by (simp add: example_accel_session_eq example_accel_engine_def example_input_def
        FP_Quantize_init_def dequantize_def quantize_def resolve_mantisa_def)

subsection \<open>C4: element counts when a scale is passed\<close>

lemma cat_scale_mismatch:
  "numel input_q \<noteq> numel fp_out \<Longrightarrow> cat_scale rt input_q fp_out sc s = Inl ShapeMismatch"
  by (simp add: cat_scale_def)

lemma dequantize_scale_mismatch:
  assumes "kernel s = Some K" "self_orig_dtype s = Some dt" "q_bits \<in> {4, 6, 8, 12}"
  shows "numel input_q \<noteq> numel given \<Longrightarrow>
           fst (dequantize rt input_q (Some given) q_bits q_mantisa_bits (Some sc) s)
             = Inl ShapeMismatch"
    and "self_orig_shape s = Value shp \<Longrightarrow> numel input_q \<noteq> int (prod_list shp) \<Longrightarrow>
           fst (dequantize rt input_q None q_bits q_mantisa_bits (Some sc) s)
             = Inl ShapeMismatch"
  using assms resolve_supported [OF assms(3), of q_mantisa_bits]
  by (auto simp: dequantize_def is_fallback_def cat_scale_def torch_empty_def numel_def)

lemma selective_dequantize_scale_mismatch:
  assumes "kernel s = Some K" "self_orig_dtype s = Some dt" "q_bits \<in> {4, 6, 8, 12}"
    "self_orig_shape s = Value shp" "length shp = 3"
  shows "numel input_q \<noteq> numel given \<Longrightarrow>
           fst (selective_dequantize rt input_q indexes (Some given) q_bits q_mantisa_bits (Some sc) s)
             = Inl ShapeMismatch"
    and "numel input_q \<noteq> int (length indexes * prod_list (drop 1 shp)) \<Longrightarrow>
           fst (selective_dequantize rt input_q indexes None q_bits q_mantisa_bits (Some sc) s)
             = Inl ShapeMismatch"
  using assms resolve_supported [OF assms(3), of q_mantisa_bits]
  by (auto simp: selective_dequantize_def is_fallback_def cat_scale_def torch_empty_def numel_def)

text \<open>
  C4 (amended). On the accelerated backend, after a \<open>quantize\<close> has recorded the element
  type (and, for \<open>selective_dequantize\<close>, a rank-3 shape) and with a supported bit
  width, a \<open>dequantize\<close> or \<open>selective_dequantize\<close> call that is given an explicit scale
  fails with ShapeMismatch whenever the element count of the quantized input differs
  from that of the output tensor, be it supplied by the caller or allocated by the
  call. The fallback backend makes no such comparison.
\<close>

theorem explicit_scale_element_count_accelerated:
  assumes "kernel s = Some K" and "self_orig_dtype s = Some dt" and "q_bits \<in> {4, 6, 8, 12}"
  shows
   "(numel input_q \<noteq> numel given \<longrightarrow>
       fst (dequantize rt input_q (Some given) q_bits q_mantisa_bits (Some sc) s)
         = Inl ShapeMismatch) \<and>
    (self_orig_shape s = Value shp \<and> numel input_q \<noteq> int (prod_list shp) \<longrightarrow>
       fst (dequantize rt input_q None q_bits q_mantisa_bits (Some sc) s)
         = Inl ShapeMismatch) \<and>
    (self_orig_shape s = Value shp \<and> length shp = 3 \<and> numel input_q \<noteq> numel given \<longrightarrow>
       fst (selective_dequantize rt input_q indexes (Some given) q_bits q_mantisa_bits (Some sc) s)
         = Inl ShapeMismatch) \<and>
    (self_orig_shape s = Value shp \<and> length shp = 3 \<and>
     numel input_q \<noteq> int (length indexes * prod_list (drop 1 shp)) \<longrightarrow>
       fst (selective_dequantize rt input_q indexes None q_bits q_mantisa_bits (Some sc) s)
         = Inl ShapeMismatch)"
  by (intro conjI impI; (elim conjE)?)
     (simp_all add: dequantize_scale_mismatch [OF assms] selective_dequantize_scale_mismatch [OF assms])

theorem explicit_scale_element_count_accelerated_witness:
  "numel example_codes \<noteq> numel example_wide_out \<and>
   fst (dequantize example_runtime example_codes (Some example_wide_out) 8 3 (Some example_scale)
          example_accel_session) = Inl ShapeMismatch \<and>
   fst (selective_dequantize example_runtime example_codes [1, 0, 1] None 8 3 (Some example_scale)
          example_accel_session) = Inl ShapeMismatch"
  using explicit_scale_element_count_accelerated
          [where s = example_accel_session and K = example_kernel and dt = BFloat16
             and q_bits = 8 and input_q = example_codes and given = example_wide_out
             and rt = example_runtime and q_mantisa_bits = 3 and sc = example_scale
             and shp = "[2, 2, 2]" and indexes = "[1, 0, 1]"]
  by (simp add: example_accel_session_eq example_codes_def example_wide_out_def numel_def)

text \<open>
  On the fallback backend, \<open>dequantize\<close> with an explicit scale takes the branch of lines
  143-145, which does not compare element counts: 8 codes are copied, by broadcasting,
  into an output tensor of 16 elements, and the call returns.
\<close>

theorem explicit_scale_fallback_counterexample:
  "kernel example_fallback_session = None \<and>
   numel example_codes \<noteq> numel example_wide_out \<and>
   fst (dequantize example_runtime example_codes (Some example_wide_out) 8 3 (Some example_scale)
          example_fallback_session)
     = Inr (example_wide_out\<lparr>elems := [1, -2, 3, -4, 5, 6, -8, 7, 1, -2, 3, -4, 5, 6, -8, 7]\<rparr>) \<and>
   fst (dequantize example_runtime example_codes (Some example_wide_out) 8 3 (Some example_scale)
          example_fallback_session) \<noteq> Inl ShapeMismatch"
  by (simp add: example_fallback_session_eq example_defs model_defs upt_rec numeral_2_eq_2)

subsection \<open>C7: the scale of a group on the fallback backend\<close>

lemma slice_map: "slice w g (map f xs) = map f (slice w g xs)"
  by (simp add: slice_def take_map drop_map)

lemma t_reshape_keeps:
  "t_reshape dims t = Inr v \<Longrightarrow> dtype v = dtype t \<and> elems v = elems t"
  by (auto simp: t_reshape_def Let_def split: if_splits)

lemma quantize_fallback_scale:
  assumes "quantize_fallback rt out val gw st q_bits m s = (Inr out', s')"
  shows "q_bits = 8 \<and> m = 3 \<and>
    (\<exists>ng q_range. self_num_groups s = Some ng \<and>
       finfo_max rt (q_range_dtype (q_config s)) = Some q_range \<and>
       self_scale s' = Some \<lparr>dtype = Float32, shape = [nat ng, 1],
         elems = map (\<lambda>g. f_div rt q_range (row_max rt (map (f_abs rt)
                   (map (to_dtype rt (dtype val) Float32) (slice (nat gw) g (elems val))))))
                   [0..<nat ng]\<rparr>)"
  using assms
  by (auto simp: quantize_fallback_def Let_def t_float_def slice_map comp_def
      dest!: t_reshape_keeps split: if_splits option.splits sum.splits)

lemma extract_meta_fallback_scale:
  "kernel s = None \<Longrightarrow> self_scale (snd (extract_meta input out gw s)) = self_scale s"
  by (simp add: extract_meta_def is_fallback_def split: sum.split option.split attr.split)

lemma quantize_alloc_Inr:
  "quantize_alloc rt input q_bits s = (Inr buf, s') \<Longrightarrow>
   self_num_groups s' =
     Some ((numel input + group_size (q_config s) - 1) div group_size (q_config s))"
  by (auto simp: quantize_alloc_def Let_def split: if_splits sum.splits)

lemma quantize_finish_fallback_scale:
  assumes "kernel s = None"
    and "quantize_finish rt input buf q_bits m st rmt s = (Inr r, s')"
  shows "q_bits = 8 \<and>
    (\<exists>ng q_range. self_num_groups s = Some ng \<and>
       finfo_max rt (q_range_dtype (q_config s)) = Some q_range \<and>
       self_scale s' = Some \<lparr>dtype = Float32, shape = [nat ng, 1],
         elems = map (\<lambda>g. f_div rt q_range (row_max rt (map (f_abs rt)
                   (map (to_dtype rt (dtype input) Float32)
                      (slice (nat (row_width s (numel input) q_bits)) g (elems input))))))
                   [0..<nat ng]\<rparr>)"
proof -
  let ?gw = "row_width s (numel input) q_bits"
  obtain r0 s4 where qf: "quantize_fallback rt buf input ?gw st q_bits m s = (r0, s4)"
    by (cases "quantize_fallback rt buf input ?gw st q_bits m s") auto
  have k4: "kernel s4 = None"
    using quantize_fallback_frame [of rt buf input ?gw st q_bits m s] qf assms(1) by simp
  show ?thesis
  proof (cases r0)
    case (Inl e)
    then show ?thesis
      using assms qf by (simp add: quantize_finish_def quantize_func_def)
  next
    case (Inr out)
    have s': "self_scale s' = self_scale s4"
      using assms qf Inr k4
        extract_meta_fallback_scale [of "s4\<lparr>self_input_q := Value (Some out)\<rparr>" input out ?gw]
      by (auto simp: quantize_finish_def quantize_func_def Let_def split: if_splits)
    show ?thesis
      using quantize_fallback_scale [OF qf [unfolded Inr]] by (auto simp: s')
  qed
qed

text \<open>
  C7. On the fallback backend, when \<open>quantize\<close> returns, the scale it has stored has one
  row per group, and the entry of every group is \<open>representable_max\<close> divided by the
  maximum of the absolute values of the group, where \<open>representable_max\<close> is
  \<open>torch.finfo(q_range_dtype).max\<close>, the group is a row of the input viewed as
  \<open>[num_groups, min(group_size, N)]\<close>, and its values are first widened to 32-bit floats.
  Division, absolute value and maximum are those of torch on 32-bit floats. The
  statement holds for every group, those of maximum zero included.
\<close>

theorem fallback_scale_per_group:
  assumes "kernel s = None"
    and "quantize rt input q_bits q_mantisa_bits stochastic_mode return_meta_tensor s = (Inr r, s')"
  shows "\<exists>q_range. finfo_max rt (q_range_dtype (q_config s)) = Some q_range \<and>
    self_scale s' =
      Some \<lparr>dtype = Float32,
            shape = [nat ((numel input + group_size (q_config s) - 1) div group_size (q_config s)), 1],
            elems = map (\<lambda>g. f_div rt q_range (row_max rt (map (f_abs rt)
                      (map (to_dtype rt BFloat16 Float32)
                         (slice (nat (min (group_size (q_config s)) (numel input))) g
                            (elems input))))))
                      [0..<nat ((numel input + group_size (q_config s) - 1)
                                 div group_size (q_config s))]\<rparr>"
proof -
  let ?s1 = "s\<lparr>self_orig_dtype := Some BFloat16, self_orig_shape := Value (shape input)\<rparr>"
  have d: "dtype input = BFloat16" and g: "\<not> (return_meta_tensor \<and> q_bits \<noteq> 8)"
    using assms(2) by (auto simp: quantize_def split: if_splits)
  obtain m where m: "resolve_mantisa q_bits q_mantisa_bits = Inr m"
    using assms(2) d g by (cases "resolve_mantisa q_bits q_mantisa_bits") (auto simp: quantize_def)
  obtain r1 s3 where al: "quantize_alloc rt input q_bits ?s1 = (r1, s3)"
    by (cases "quantize_alloc rt input q_bits ?s1") auto
  have eq: "(case (r1, s3) of (Inl e, s2) \<Rightarrow> (Inl e, s2)
            | (Inr buf, s3) \<Rightarrow>
                quantize_finish rt input buf q_bits m stochastic_mode return_meta_tensor s3)
            = (Inr r, s')"
    using quantize_past_checks [OF d g m, of rt stochastic_mode s] assms(2) by (simp add: al)
  then obtain buf where r1: "r1 = Inr buf"
    and fin: "quantize_finish rt input buf q_bits m stochastic_mode return_meta_tensor s3 = (Inr r, s')"
    by (cases r1) auto
  have fr: "kernel s3 = None" "q_config s3 = q_config s"
    using quantize_alloc_frame [of rt input q_bits ?s1] al assms(1) by simp_all
  have ng: "self_num_groups s3 =
      Some ((numel input + group_size (q_config s) - 1) div group_size (q_config s))"
    using quantize_alloc_Inr [OF al [unfolded r1]] by simp
  have q8: "q_bits = 8"
    using quantize_finish_fallback_scale [OF fr(1) fin] by simp
  have rw: "row_width s3 (numel input) q_bits = min (group_size (q_config s)) (numel input)"
    using fr by (simp add: row_width_def is_fallback_def q8)
  show ?thesis
    using quantize_finish_fallback_scale [OF fr(1) fin] by (auto simp: ng fr(2) rw d)
qed

theorem fallback_scale_per_group_witness:
  "kernel example_fallback_engine = None \<and>
   self_scale (snd (quantize example_runtime example_input 8 3 False False example_fallback_engine))
     = Some \<lparr>dtype = Float32, shape = [2, 1], elems = [240 div 4, 240 div 8]\<rparr>"
proof -
  have run: "quantize example_runtime example_input 8 3 False False example_fallback_engine
      = (Inr (Packed example_codes), example_fallback_session)"
    by (simp add: example_fallback_session_eq example_defs model_defs upt_rec)
  have k: "kernel example_fallback_engine = None"
    by (simp add: example_fallback_engine_def FP_Quantize_init_def)
  have "self_scale example_fallback_session
          = Some \<lparr>dtype = Float32, shape = [2, 1], elems = [240 div 4, 240 div 8]\<rparr>"
    using fallback_scale_per_group [OF k run]
    by (simp add: example_defs FP_Quantize_init_def numel_def slice_def upt_rec)
  then show ?thesis
    by (simp only: run k snd_conv simp_thms)
qed

subsection \<open>C2: the meta tensor\<close>

lemma t_split_whole_row:
  assumes "shape t = [r, d]" "0 \<le> w" "nat w = d"
  shows "\<exists>c. t_split w t = Inr [c]"
proof (cases "d = 0")
  case True
  then show ?thesis using assms by (simp add: t_split_def)
next
  case False
  then have "(d + d - 1) div d = 1" by (simp add: div_eq_dividend_iff Suc_leI div_nat_eqI)
  then show ?thesis using assms False by (auto simp: t_split_def)
qed

lemma extract_meta_accelerated:
  assumes "kernel s = Some K" "shape out = [r, nat w]" "0 \<le> w"
  shows "extract_meta input out w s = (Inl ValueError, s)"
proof -
  obtain c where "t_split w out = Inr [c]"
    using t_split_whole_row [OF assms(2,3)] by auto
  then show ?thesis using assms(1) by (simp add: extract_meta_def is_fallback_def)
qed

lemma quantize_alloc_shape:
  "quantize_alloc rt input q_bits s = (Inr buf, s') \<Longrightarrow>
   0 \<le> row_width s (numel input) q_bits \<and>
   (\<exists>r. shape buf = [r, nat (row_width s (numel input) q_bits)])"
  by (auto simp: quantize_alloc_def Let_def torch_ones_def torch_full_def
      split: if_splits sum.splits)

lemma quantize_finish_meta_accelerated:
  assumes "kernel s = Some K" "0 \<le> row_width s (numel input) q_bits"
    "shape buf = [r, nat (row_width s (numel input) q_bits)]"
  shows "fst (quantize_finish rt input buf q_bits m st True s) =
     (case k_quantize K buf input (row_width s (numel input) q_bits) st q_bits m of
        Inl e \<Rightarrow> Inl e | Inr written \<Rightarrow> Inl ValueError)"
  using assms
  by (simp add: quantize_finish_def quantize_func_def Let_def
      extract_meta_accelerated [where K = K and r = r] split: sum.split)


lemma t_reshape_to_shape:
  "t_reshape (map int shp) t = Inr v \<Longrightarrow> shape v = shp"
  by (auto simp: t_reshape_def Let_def list_ex_iff filter_empty_conv comp_def
      split: if_splits)

lemma extract_meta_fallback_result:
  assumes "kernel s = None" "extract_meta input out w s = (Inr (Meta data sc), s')"
  shows "shape data = shape input \<and> self_scale s = Some sc"
  using assms
  by (auto simp: extract_meta_def is_fallback_def dest: t_reshape_to_shape
      split: sum.splits option.splits attr.splits)

lemma quantize_meta_accelerated_8:
  assumes "kernel s = Some K" "dtype input = BFloat16"
  shows "isl (fst (quantize rt input 8 q_mantisa_bits stochastic_mode True s))"
    and "0 < group_size (q_config s) \<Longrightarrow> 1 \<le> numel input \<Longrightarrow>
         \<forall>out. \<not> isl (k_quantize K out input (row_width s (numel input) 8) stochastic_mode 8
                        q_mantisa_bits) \<Longrightarrow>
         fst (quantize rt input 8 q_mantisa_bits stochastic_mode True s) = Inl ValueError"
proof -
  let ?s1 = "s\<lparr>self_orig_dtype := Some BFloat16, self_orig_shape := Value (shape input)\<rparr>"
  let ?Q = "quantize rt input 8 q_mantisa_bits stochastic_mode True s"
  have m: "resolve_mantisa 8 q_mantisa_bits = Inr q_mantisa_bits"
    by (simp add: resolve_mantisa_def)
  obtain r1 s3 where al: "quantize_alloc rt input 8 ?s1 = (r1, s3)"
    by (cases "quantize_alloc rt input 8 ?s1") auto
  have eq: "?Q = (case (r1, s3) of (Inl e, s2) \<Rightarrow> (Inl e, s2)
       | (Inr buf, s3) \<Rightarrow>
           quantize_finish rt input buf 8 q_mantisa_bits stochastic_mode True s3)"
    by (simp add: quantize_past_checks [OF assms(2) _ m] al)
  have k3: "kernel s3 = Some K" "q_config s3 = q_config s"
    using quantize_alloc_frame [of rt input 8 ?s1] al assms(1) by simp_all
  have rw: "row_width s3 (numel input) 8 = row_width s (numel input) 8"
    using k3 assms(1) by (simp add: row_width_def is_fallback_def)
  have both: "isl (fst ?Q) \<and>
    (0 < group_size (q_config s) \<longrightarrow> 1 \<le> numel input \<longrightarrow>
     (\<forall>out. \<not> isl (k_quantize K out input (row_width s (numel input) 8) stochastic_mode 8
                       q_mantisa_bits)) \<longrightarrow> fst ?Q = Inl ValueError)"
  proof (cases r1)
    case (Inl e)
    have "0 \<le> (numel input + group_size (q_config s) - 1) div group_size (q_config s)"
      if "0 < group_size (q_config s)" "1 \<le> numel input"
      using that by (simp add: pos_imp_zdiv_nonneg_iff)
    moreover have "0 \<le> row_width ?s1 (numel input) 8"
      if "0 < group_size (q_config s)" "1 \<le> numel input"
      using that by (simp add: row_width_def Let_def)
    ultimately have "\<not> (0 < group_size (q_config s) \<and> 1 \<le> numel input)"
      using quantize_alloc_ok [of ?s1 input 8 rt] al Inl by auto
    then show ?thesis using eq Inl by auto
  next
    case (Inr buf)
    obtain r where sh: "0 \<le> row_width ?s1 (numel input) 8"
      "shape buf = [r, nat (row_width ?s1 (numel input) 8)]"
      using quantize_alloc_shape [OF al [unfolded Inr]] by auto
    have fin: "fst (quantize_finish rt input buf 8 q_mantisa_bits stochastic_mode True s3) =
       (case k_quantize K buf input (row_width s (numel input) 8) stochastic_mode 8
               q_mantisa_bits of
          Inl e \<Rightarrow> Inl e | Inr written \<Rightarrow> Inl ValueError)"
      using quantize_finish_meta_accelerated [OF k3(1), of input 8 buf r rt q_mantisa_bits
          stochastic_mode] sh
      by (simp add: rw)
    have "\<not> isl (k_quantize K buf input (row_width s (numel input) 8) stochastic_mode 8
                   q_mantisa_bits)"
      if "\<forall>out. \<not> isl (k_quantize K out input (row_width s (numel input) 8) stochastic_mode 8
                        q_mantisa_bits)"
      using that by blast
    then show ?thesis
      by (cases "k_quantize K buf input (row_width s (numel input) 8) stochastic_mode 8
                   q_mantisa_bits") (auto simp: eq Inr fin)
  qed
  show "isl (fst ?Q)" using both by blast
  show "fst ?Q = Inl ValueError"
    if "0 < group_size (q_config s)" "1 \<le> numel input"
      "\<forall>out. \<not> isl (k_quantize K out input (row_width s (numel input) 8) stochastic_mode 8
                        q_mantisa_bits)"
    using both that by blast
qed

text \<open>
  C2. The claim asks that \<open>quantize\<close> with \<open>return_meta_tensor\<close> returns a pair
  \<open>(data, scale)\<close> on both backends. On the accelerated backend it never does: line 99
  splits the rows of the buffer at \<open>group_size\<close>, which line 93 has already increased
  by the 4 bytes of the scale and which is therefore the whole width of a row; the
  split has a single chunk and the unpacking into \<open>data, self.scale\<close> raises ValueError,
  unless an earlier statement has raised already.
\<close>

theorem meta_tensor_accelerated_raises:
  assumes "kernel s = Some K"
  shows "isl (fst (quantize rt input q_bits q_mantisa_bits stochastic_mode True s)) \<and>
    (dtype input = BFloat16 \<and> q_bits = 8 \<and> 0 < group_size (q_config s) \<and> 1 \<le> numel input \<and>
     (\<forall>out. \<not> isl (k_quantize K out input (row_width s (numel input) 8) stochastic_mode 8
                       q_mantisa_bits)) \<longrightarrow>
       fst (quantize rt input q_bits q_mantisa_bits stochastic_mode True s) = Inl ValueError)"
proof (cases "dtype input = BFloat16 \<and> q_bits = 8")
  case False
  then show ?thesis by (auto simp: quantize_def)
next
  case True
  then show ?thesis
    using quantize_meta_accelerated_8 [OF assms, where input = input and rt = rt
        and q_mantisa_bits = q_mantisa_bits and stochastic_mode = stochastic_mode]
    by blast
qed

theorem meta_tensor_accelerated_raises_witness:
  "kernel example_accel_engine = Some example_kernel \<and>
   isl (fst (quantize example_runtime example_input 8 3 False True example_accel_engine)) \<and>
   fst (quantize example_runtime example_input 8 3 False True example_accel_engine)
     = Inl ValueError"
  using meta_tensor_accelerated_raises
          [where s = example_accel_engine and K = example_kernel and rt = example_runtime
             and input = example_input and q_bits = 8 and q_mantisa_bits = 3
             and stochastic_mode = False]
  by (simp add: example_accel_engine_def FP_Quantize_init_def example_input_def
        example_config_def example_kernel_def numel_def)

text \<open>
  On the fallback backend the same call, when it returns, does return \<open>data\<close> in the
  shape of the input and a scale with one row per group.
\<close>

lemma meta_tensor_fallback_shapes:
  assumes "kernel s = None"
    and "quantize rt input q_bits q_mantisa_bits stochastic_mode True s
           = (Inr (Meta data sc), s')"
  shows "shape data = shape input \<and>
    shape sc = [nat ((numel input + group_size (q_config s) - 1) div group_size (q_config s)), 1]"
proof -
  let ?s1 = "s\<lparr>self_orig_dtype := Some BFloat16, self_orig_shape := Value (shape input)\<rparr>"
  have d: "dtype input = BFloat16" and g: "\<not> (True \<and> q_bits \<noteq> 8)"
    using assms(2) by (auto simp: quantize_def split: if_splits)
  obtain m where m: "resolve_mantisa q_bits q_mantisa_bits = Inr m"
    using assms(2) d g by (cases "resolve_mantisa q_bits q_mantisa_bits") (auto simp: quantize_def)
  obtain r1 s3 where al: "quantize_alloc rt input q_bits ?s1 = (r1, s3)"
    by (cases "quantize_alloc rt input q_bits ?s1") auto
  have "(case (r1, s3) of (Inl e, s2) \<Rightarrow> (Inl e, s2)
         | (Inr buf, s3) \<Rightarrow> quantize_finish rt input buf q_bits m stochastic_mode True s3)
        = (Inr (Meta data sc), s')"
    using quantize_past_checks [OF d g m, of rt stochastic_mode s] assms(2) by (simp add: al)
  then obtain buf where r1: "r1 = Inr buf" and
    fin: "quantize_finish rt input buf q_bits m stochastic_mode True s3 = (Inr (Meta data sc), s')"
    by (cases r1) auto
  have k3: "kernel s3 = None"
    using quantize_alloc_frame [of rt input q_bits ?s1] al assms(1) by simp
  let ?gw = "row_width s3 (numel input) q_bits"
  obtain r0 s4 where qf: "quantize_fallback rt buf input ?gw stochastic_mode q_bits m s3 = (r0, s4)"
    by (cases "quantize_fallback rt buf input ?gw stochastic_mode q_bits m s3") auto
  have k4: "kernel s4 = None"
    using quantize_fallback_frame [of rt buf input ?gw stochastic_mode q_bits m s3] qf k3 by simp
  obtain out where r0: "r0 = Inr out"
    and em: "extract_meta input out ?gw (s4\<lparr>self_input_q := Value (Some out)\<rparr>)
               = (Inr (Meta data sc), s')"
    using fin qf k3 by (cases r0) (auto simp: quantize_finish_def quantize_func_def Let_def)
  have "shape data = shape input" "self_scale s4 = Some sc"
    using extract_meta_fallback_result [OF _ em] k4 by simp_all
  moreover have "\<exists>ng q_range. self_num_groups s3 = Some ng \<and>
       finfo_max rt (q_range_dtype (q_config s3)) = Some q_range \<and>
       self_scale s4 = Some \<lparr>dtype = Float32, shape = [nat ng, 1],
         elems = map (\<lambda>g. f_div rt q_range (row_max rt (map (f_abs rt)
                   (map (to_dtype rt (dtype input) Float32) (slice (nat ?gw) g (elems input))))))
                   [0..<nat ng]\<rparr>"
    using quantize_fallback_scale [OF qf [unfolded r0]] by blast
  moreover have "self_num_groups s3 =
      Some ((numel input + group_size (q_config s) - 1) div group_size (q_config s))"
    using quantize_alloc_Inr [OF al [unfolded r1]] by simp
  ultimately show ?thesis by auto
qed

end
